theory Spec2Isabelle
  imports Complex_Main "HOL-Library.Word"
begin

section \<open>Machine types\<close>

text \<open>
  \<open>size_t\<close> is a 64-bit word read unsigned, \<open>GLsizei\<close> a 32-bit word read signed
  (\<open>sint\<close>). Sizes of vectors are lengths of lists (natural numbers); where the source
  converts such a size to \<open>GLsizei\<close> the conversion is written out with \<open>of_nat\<close>,
  which wraps. GL object names (\<open>GLuint\<close>) are opaque and modelled as natural numbers;
  plain \<open>int\<close> fields of the scene description are never computed with and are
  integers. Floating-point values are only stored and passed on, never computed with:
  they stand as reals.
\<close>

type_synonym size_t = "64 word"
type_synonym GLsizei = "32 word"
type_synonym GLuint = nat
type_synonym GLenum = "32 word"
type_synonym float = real
type_synonym vec3 = "float \<times> float \<times> float"
type_synonym mat4 = "float list list"

definition mat4_diag :: "float \<Rightarrow> mat4" where
  "mat4_diag x = [[x, 0, 0, 0], [0, x, 0, 0], [0, 0, x, 0], [0, 0, 0, x]]"

section \<open>The scene description (the fields of tinygltf::Model that the viewer reads)\<close>

record Buffer =
  data :: "8 word list"

record BufferView =
  bv_buffer :: int
  bv_byteOffset :: size_t
  bv_byteStride :: size_t

record Accessor =
  acc_bufferView :: int
  acc_byteOffset :: size_t
  acc_componentType :: int
  acc_type :: int

record Primitive =
  attributes :: "(string \<times> int) list"
  indices :: int

record Mesh =
  primitives :: "Primitive list"

record Node =
  mesh :: int
  children :: "int list"
  translation :: "float list"
  rotation :: "float list"
  scale :: "float list"
  matrix :: "float list"

record Scene =
  nodes :: "int list"

record Model =
  buffers :: "Buffer list"
  bufferViews :: "BufferView list"
  accessors :: "Accessor list"
  meshes :: "Mesh list"
  model_nodes :: "Node list"
  scenes :: "Scene list"
  defaultScene :: int

text \<open>
  Reading a \<open>std::vector\<close> outside its size is undefined behaviour; the model makes it
  a fault. An \<open>int\<close> index is converted to \<open>size_t\<close> first, so a negative one is
  out of range as well.
\<close>

datatype fault = OutOfRange

definition at_int :: "'a list \<Rightarrow> int \<Rightarrow> fault + 'a" where
  "at_int xs i = (if 0 \<le> i \<and> nat i < length xs then Inr (xs ! nat i) else Inl OutOfRange)"

section \<open>The calls made to the GL context, and everything else that is observable\<close>

datatype target = GL_ARRAY_BUFFER | GL_ELEMENT_ARRAY_BUFFER

datatype gl_call =
    GenBuffers GLsizei
  | BindBuffer target GLuint
  | BufferStorage target nat "8 word list" "32 word"
  | GenVertexArrays GLsizei
  | BindVertexArray GLuint
  | EnableVertexAttribArray GLuint
  | VertexAttribPointer GLuint int GLenum bool GLsizei size_t
  | GetUniformLocation string
  | Enable_DEPTH_TEST
  | UseProgram
  | Viewport int int GLsizei GLsizei
  | Clear_COLOR_DEPTH
  | UniformMatrix4fv int mat4
  | DrawElements GLenum GLsizei GLenum size_t
  | DrawArrays GLenum int GLsizei

fun is_draw_call :: "gl_call \<Rightarrow> bool" where
  "is_draw_call (DrawElements m c t p) = True"
| "is_draw_call (DrawArrays m f c) = True"
| "is_draw_call _ = False"

text \<open>
  Modelled from the spec: class Camera is declared in utils/cameras.hpp, which is not
  among the sources. A Camera is the triple eye, center, up that it is built from.
\<close>

record Camera =
  eye :: vec3
  center :: vec3
  up :: vec3

datatype event =
    Gl gl_call
  | Cerr string
  | CompileProgram
  | SetCamera Camera
  | GetCamera Camera
  | Update float
  | ImguiNewFrame
  | GuiWindow Camera
  | SetClipboard Camera
  | ImguiRenderFrame
  | PollEvents
  | SwapBuffers

text \<open>
  The world outside the program: the trace of what it did so far, in order; the two
  name supplies of the GL context (\<open>glGenBuffers\<close> and \<open>glGenVertexArrays\<close> hand out
  names that were not handed out before: a counter); and the camera held by the camera
  controller.
\<close>

record world =
  trace :: "event list"
  next_buffer :: GLuint
  next_vao :: GLuint
  controller :: Camera

definition emit :: "event \<Rightarrow> world \<Rightarrow> world" where
  "emit e w = w\<lparr>trace := trace w @ [e]\<rparr>"

definition emit_gl :: "gl_call list \<Rightarrow> world \<Rightarrow> world" where
  "emit_gl cs w = w\<lparr>trace := trace w @ map Gl cs\<rparr>"

text \<open>
  \<open>glGen*(n, arr)\<close> writes \<open>n\<close> fresh names to the first \<open>n\<close> slots of \<open>arr\<close>; a
  negative \<open>n\<close> is an error of the GL that leaves the array as it was.
\<close>

definition write_names :: "GLsizei \<Rightarrow> GLuint \<Rightarrow> GLuint list \<Rightarrow> GLuint list" where
  "write_names n fresh arr =
     (if sint n < 0 then arr
      else map (\<lambda>j. if j < nat (sint n) then fresh + j else arr ! j) [0..<length arr])"

definition glGenBuffers :: "GLsizei \<Rightarrow> GLuint list \<Rightarrow> world \<Rightarrow> GLuint list \<times> world" where
  "glGenBuffers n arr w =
     (write_names n (next_buffer w) arr,
      (emit (Gl (GenBuffers n)) w)\<lparr>next_buffer := next_buffer w + nat (sint n)\<rparr>)"

definition glGenVertexArrays :: "GLsizei \<Rightarrow> GLuint list \<Rightarrow> world \<Rightarrow> GLuint list \<times> world" where
  "glGenVertexArrays n arr w =
     (write_names n (next_vao w) arr,
      (emit (Gl (GenVertexArrays n)) w)\<lparr>next_vao := next_vao w + nat (sint n)\<rparr>)"

section \<open>createBufferObjects\<close>

text \<open>
  One pass of the loop of \<open>createBufferObjects\<close>: bind buffer object \<open>i\<close>, then give it
  immutable storage holding the bytes of buffer \<open>i\<close> (flags \<open>0\<close>). The size of a byte
  vector always fits \<open>GLsizeiptr\<close>, so it is passed as it is.
\<close>

definition upload_buffer :: "Model \<Rightarrow> GLuint list \<Rightarrow> nat \<Rightarrow> world \<Rightarrow> world" where
  "upload_buffer model bo i w =
     emit_gl [BindBuffer GL_ARRAY_BUFFER (bo ! i),
              BufferStorage GL_ARRAY_BUFFER (length (data (buffers model ! i)))
                (data (buffers model ! i)) 0] w"

definition createBufferObjects :: "Model \<Rightarrow> world \<Rightarrow> GLuint list \<times> world" where
  "createBufferObjects model w =
     (let len = length (buffers model);
          (bo, w1) = glGenBuffers (of_nat len) (replicate len 0) w;
          w2 = fold (upload_buffer model bo) [0..<len] w1
      in (bo, emit_gl [BindBuffer GL_ARRAY_BUFFER 0] w2))"

section \<open>vao_init\<close>

text \<open>
  \<open>vao_init\<close> returns nothing and only talks to the GL: the model gives the calls it
  makes, in order, or the fault when it reads a vector out of range. The attribute map
  of the primitive is searched for \<open>str\<close>; when the key is absent nothing is done.
  The stride is a \<open>size_t\<close> passed where a \<open>GLsizei\<close> is expected (\<open>ucast\<close>), the
  component type an \<open>int\<close> passed where a \<open>GLenum\<close> is expected (\<open>of_int\<close>).
\<close>

definition vao_init ::
  "Model \<Rightarrow> Primitive \<Rightarrow> GLuint list \<Rightarrow> string \<Rightarrow> GLuint \<Rightarrow> fault + gl_call list" where
  "vao_init model primitive bufferObjects str index =
     (case map_of (attributes primitive) str of
        None \<Rightarrow> Inr []
      | Some accessorIdx \<Rightarrow>
          (case at_int (accessors model) accessorIdx of
             Inl e \<Rightarrow> Inl e
           | Inr accessor \<Rightarrow>
          (case at_int (bufferViews model) (acc_bufferView accessor) of
             Inl e \<Rightarrow> Inl e
           | Inr bufferView \<Rightarrow>
          (let bufferIdx = bv_buffer bufferView in
          (case at_int (buffers model) bufferIdx of
             Inl e \<Rightarrow> Inl e
           | Inr bufferObject \<Rightarrow>
          (case at_int bufferObjects bufferIdx of
             Inl e \<Rightarrow> Inl e
           | Inr boHandle \<Rightarrow>
          (let byteOffset = bv_byteOffset bufferView + acc_byteOffset accessor in
           Inr [EnableVertexAttribArray index,
                BindBuffer GL_ARRAY_BUFFER boHandle,
                VertexAttribPointer index (acc_type accessor)
                  (of_int (acc_componentType accessor)) False
                  (ucast (bv_byteStride bufferView)) byteOffset])))))))"

definition VERTEX_ATTRIB_POSITION_IDX :: GLuint where
  "VERTEX_ATTRIB_POSITION_IDX = 0"

definition VERTEX_ATTRIB_NORMAL_IDX :: GLuint where
  "VERTEX_ATTRIB_NORMAL_IDX = 1"

definition VERTEX_ATTRIB_TEXCOORD0_IDX :: GLuint where
  "VERTEX_ATTRIB_TEXCOORD0_IDX = 2"

section \<open>createVertexArrayObjects\<close>

text \<open>
  What the inner loop does for one primitive once its vertex array is bound: the three
  calls of \<open>vao_init\<close>, then the index buffer when the primitive has an index accessor.
\<close>

definition configure_primitive :: "Model \<Rightarrow> GLuint list \<Rightarrow> Primitive \<Rightarrow> fault + gl_call list" where
  "configure_primitive model bufferObjects primitive =
     (case vao_init model primitive bufferObjects ''POSITION'' VERTEX_ATTRIB_POSITION_IDX of
        Inl e \<Rightarrow> Inl e
      | Inr c0 \<Rightarrow>
     (case vao_init model primitive bufferObjects ''NORMAL'' VERTEX_ATTRIB_NORMAL_IDX of
        Inl e \<Rightarrow> Inl e
      | Inr c1 \<Rightarrow>
     (case vao_init model primitive bufferObjects ''TEXCOORD_0'' VERTEX_ATTRIB_TEXCOORD0_IDX of
        Inl e \<Rightarrow> Inl e
      | Inr c2 \<Rightarrow>
     (if 0 \<le> indices primitive then
        (case at_int (accessors model) (indices primitive) of
           Inl e \<Rightarrow> Inl e
         | Inr accessor \<Rightarrow>
        (case at_int (bufferViews model) (acc_bufferView accessor) of
           Inl e \<Rightarrow> Inl e
         | Inr bufferView \<Rightarrow>
        (case at_int bufferObjects (bv_buffer bufferView) of
           Inl e \<Rightarrow> Inl e
         | Inr boHandle \<Rightarrow>
             Inr (c0 @ c1 @ c2 @ [BindBuffer GL_ELEMENT_ARRAY_BUFFER boHandle]))))
      else Inr (c0 @ c1 @ c2)))))"

text \<open>A counted loop whose body may fault: the passes run in order and stop at a fault.\<close>

fun for_each :: "nat list \<Rightarrow> (nat \<Rightarrow> 's \<Rightarrow> fault + 's) \<Rightarrow> 's \<Rightarrow> fault + 's" where
  "for_each [] body s = Inr s"
| "for_each (i # is) body s =
     (case body i s of Inl e \<Rightarrow> Inl e | Inr s' \<Rightarrow> for_each is body s')"

record VaoRange =
  vr_begin :: GLsizei
  vr_count :: GLsizei

definition resize :: "nat \<Rightarrow> 'a \<Rightarrow> 'a list \<Rightarrow> 'a list" where
  "resize n d xs = take n xs @ replicate (n - length xs) d"

definition primitive_pass ::
  "Model \<Rightarrow> GLuint list \<Rightarrow> GLuint list \<Rightarrow> nat \<Rightarrow> nat \<Rightarrow> nat \<Rightarrow> world \<Rightarrow> fault + world" where
  "primitive_pass model bufferObjects vertexArrayObjects i offset k w =
     (case configure_primitive model bufferObjects (primitives (meshes model ! i) ! k) of
        Inl e \<Rightarrow> Inl e
      | Inr cs \<Rightarrow> Inr (emit_gl (BindVertexArray (vertexArrayObjects ! (offset + k)) # cs) w))"

definition mesh_pass ::
  "Model \<Rightarrow> GLuint list \<Rightarrow> nat \<Rightarrow> GLuint list \<times> VaoRange list \<times> world \<Rightarrow>
     fault + GLuint list \<times> VaoRange list \<times> world" where
  "mesh_pass model bufferObjects i st =
     (case st of (vertexArrayObjects, meshIndexToVaoRange, w) \<Rightarrow>
       (let offset = length vertexArrayObjects;
            primitive_len = length (primitives (meshes model ! i));
            ranges = meshIndexToVaoRange
              [i := (meshIndexToVaoRange ! i)
                 \<lparr>vr_begin := of_nat offset, vr_count := of_nat primitive_len\<rparr>];
            (names, w1) = glGenVertexArrays (of_nat primitive_len) (replicate primitive_len 0) w;
            vaos = vertexArrayObjects @ names
        in (case for_each [0..<primitive_len]
                   (primitive_pass model bufferObjects vaos i offset) w1 of
              Inl e \<Rightarrow> Inl e
            | Inr w2 \<Rightarrow> Inr (vaos, ranges, w2))))"

definition createVertexArrayObjects ::
  "Model \<Rightarrow> GLuint list \<Rightarrow> VaoRange list \<Rightarrow> world \<Rightarrow>
     fault + GLuint list \<times> VaoRange list \<times> world" where
  "createVertexArrayObjects model bufferObjects meshIndexToVaoRange w =
     (let mesh_len = length (meshes model);
          ranges0 = resize mesh_len \<lparr>vr_begin = 0, vr_count = 0\<rparr> meshIndexToVaoRange
      in (case for_each [0..<mesh_len] (mesh_pass model bufferObjects) ([], ranges0, w) of
            Inl e \<Rightarrow> Inl e
          | Inr (vaos, ranges, w') \<Rightarrow> Inr (vaos, ranges, emit_gl [BindVertexArray 0] w')))"

text \<open>The number of primitives of the meshes before mesh \<open>i\<close>.\<close>

definition prims_before :: "Model \<Rightarrow> nat \<Rightarrow> nat" where
  "prims_before model i = sum_list (map (\<lambda>m. length (primitives m)) (take i (meshes model)))"

text \<open>
  The calls expected for mesh \<open>i\<close> when the vertex arrays are \<open>vaos\<close>: the names are
  generated, then each primitive \<open>k\<close>, in the order of declaration, is configured
  while the handle at position \<open>prims_before model i + k\<close> is bound.
\<close>

definition mesh_calls :: "Model \<Rightarrow> GLuint list \<Rightarrow> GLuint list \<Rightarrow> nat \<Rightarrow> gl_call list" where
  "mesh_calls model bufferObjects vaos i =
     GenVertexArrays (of_nat (length (primitives (meshes model ! i)))) #
     concat (map (\<lambda>k.
       BindVertexArray (vaos ! (prims_before model i + k)) #
       projr (configure_primitive model bufferObjects (primitives (meshes model ! i) ! k)))
       [0..<length (primitives (meshes model ! i))])"

section \<open>What the claim about the attribute configuration says\<close>

text \<open>
  The type codes of an accessor and the byte sizes of the component types, as fixed by
  the scene format's library and by the GL (their headers are not among the sources).
\<close>

definition TINYGLTF_TYPE_VEC2 :: int where "TINYGLTF_TYPE_VEC2 = 2"
definition TINYGLTF_TYPE_VEC3 :: int where "TINYGLTF_TYPE_VEC3 = 3"
definition TINYGLTF_TYPE_VEC4 :: int where "TINYGLTF_TYPE_VEC4 = 4"
definition TINYGLTF_TYPE_SCALAR :: int where "TINYGLTF_TYPE_SCALAR = 64 + 1"

definition component_size :: "int \<Rightarrow> int" where
  "component_size t =
     (if t = 5120 \<or> t = 5121 then 1
      else if t = 5122 \<or> t = 5123 then 2
      else if t = 5124 \<or> t = 5125 \<or> t = 5126 then 4
      else if t = 5130 then 8
      else 0)"

text \<open>
  The configuration in the words of the specification: the cardinality is derived from
  the accessor's type (scalar 1, vec2 2, vec3 3, vec4 4; nothing is said of other
  types, which are left as they are), and a stride of 0 is replaced by the size of one
  element.
\<close>

definition cardinality_claimed :: "int \<Rightarrow> int" where
  "cardinality_claimed t =
     (if t = TINYGLTF_TYPE_SCALAR then 1
      else if t = TINYGLTF_TYPE_VEC2 then 2
      else if t = TINYGLTF_TYPE_VEC3 then 3
      else if t = TINYGLTF_TYPE_VEC4 then 4
      else t)"

definition stride_claimed :: "Accessor \<Rightarrow> BufferView \<Rightarrow> GLsizei" where
  "stride_claimed accessor bufferView =
     (if bv_byteStride bufferView = 0
      then of_int (cardinality_claimed (acc_type accessor) *
                   component_size (acc_componentType accessor))
      else ucast (bv_byteStride bufferView))"

definition attrib_pointer_claimed :: "GLuint \<Rightarrow> Accessor \<Rightarrow> BufferView \<Rightarrow> gl_call" where
  "attrib_pointer_claimed index accessor bufferView =
     VertexAttribPointer index (cardinality_claimed (acc_type accessor))
       (of_int (acc_componentType accessor)) False
       (stride_claimed accessor bufferView)
       (bv_byteOffset bufferView + acc_byteOffset accessor)"

section \<open>Validated input\<close>

text \<open>
  The references that \<open>createVertexArrayObjects\<close> and the draw routine follow are in
  range: what the loader is expected to have checked.
\<close>

definition accessor_ok :: "Model \<Rightarrow> int \<Rightarrow> bool" where
  "accessor_ok model a \<longleftrightarrow>
     0 \<le> a \<and> nat a < length (accessors model) \<and>
     0 \<le> acc_bufferView (accessors model ! nat a) \<and>
     nat (acc_bufferView (accessors model ! nat a)) < length (bufferViews model) \<and>
     0 \<le> bv_buffer (bufferViews model ! nat (acc_bufferView (accessors model ! nat a))) \<and>
     nat (bv_buffer (bufferViews model ! nat (acc_bufferView (accessors model ! nat a))))
       < length (buffers model)"

definition attribute_ok :: "Model \<Rightarrow> Primitive \<Rightarrow> string \<Rightarrow> bool" where
  "attribute_ok model p str \<longleftrightarrow>
     (case map_of (attributes p) str of None \<Rightarrow> True | Some a \<Rightarrow> accessor_ok model a)"

definition primitive_ok :: "Model \<Rightarrow> Primitive \<Rightarrow> bool" where
  "primitive_ok model p \<longleftrightarrow>
     attribute_ok model p ''POSITION'' \<and> attribute_ok model p ''NORMAL'' \<and>
     attribute_ok model p ''TEXCOORD_0'' \<and>
     (0 \<le> indices p \<longrightarrow> accessor_ok model (indices p))"

definition model_ok :: "Model \<Rightarrow> bool" where
  "model_ok model \<longleftrightarrow>
     list_all (\<lambda>m. list_all (primitive_ok model) (primitives m)) (meshes model) \<and>
     defaultScene model < int (length (scenes model))"

section \<open>The application object\<close>

text \<open>
  Of the members of the application the model keeps those that \<open>run\<close> reads, and of
  the constructor what sets them. The width and the height of the window come in as
  \<open>uint32_t\<close> and go out to \<open>glViewport\<close> as \<open>GLsizei\<close>: the same 32 bits.
\<close>

record ViewerApplication =
  m_nWindowWidth :: "32 word"
  m_nWindowHeight :: "32 word"
  m_hasUserCamera :: bool
  m_userCamera :: Camera

text \<open>
  Modelled from the spec: the members are declared in ViewerApplication.hpp, which is not
  among the sources. Without a look-at triple the constructor leaves \<open>m_hasUserCamera\<close>
  and \<open>m_userCamera\<close> as the class declares them: the flag is false (the triple is
  optional), the camera is the parameter \<open>unset\<close>. With a triple, nine elements of
  \<open>lookatArgs\<close> are read, whatever its size.
\<close>

definition ViewerApplication_init ::
  "32 word \<Rightarrow> 32 word \<Rightarrow> float list \<Rightarrow> Camera \<Rightarrow> fault + ViewerApplication" where
  "ViewerApplication_init width height lookatArgs unset =
     (if lookatArgs \<noteq> [] then
        (if length lookatArgs \<le> 8 then Inl OutOfRange
         else Inr \<lparr>m_nWindowWidth = width, m_nWindowHeight = height,
                   m_hasUserCamera = True,
                   m_userCamera =
                     \<lparr>eye = (lookatArgs ! 0, lookatArgs ! 1, lookatArgs ! 2),
                      center = (lookatArgs ! 3, lookatArgs ! 4, lookatArgs ! 5),
                      up = (lookatArgs ! 6, lookatArgs ! 7, lookatArgs ! 8)\<rparr>\<rparr>)
      else Inr \<lparr>m_nWindowWidth = width, m_nWindowHeight = height,
                m_hasUserCamera = False, m_userCamera = unset\<rparr>)"

section \<open>The environment of a run\<close>

text \<open>
  What the program is told from outside: the outcome of the scene loader, and for the
  \<open>k\<close>-th pass of the frame loop whether the window is to close, the time that the
  program finds elapsed between its two clock readings (as a \<open>float\<close>), what the
  overlay reports, and how the controller's \<open>update\<close> moves the camera for the input
  polled in that frame.
\<close>

record env =
  load_ret :: bool
  load_err :: string
  load_warn :: string
  load_model :: Model
  shouldClose :: "nat \<Rightarrow> bool"
  elapsed :: "nat \<Rightarrow> float"
  header_open :: "nat \<Rightarrow> bool"
  button_clicked :: "nat \<Rightarrow> bool"
  wantCaptureMouse :: "nat \<Rightarrow> bool"
  wantCaptureKeyboard :: "nat \<Rightarrow> bool"
  update :: "nat \<Rightarrow> float \<Rightarrow> Camera \<Rightarrow> Camera"

text \<open>
  Modelled from the spec: the camera controller is declared in utils/cameras.hpp, which
  is not among the sources. It holds one Camera: \<open>setCamera\<close> replaces it,
  \<open>getCamera\<close> reads it, and \<open>update\<close>, whose effect on the camera is a parameter of
  the environment, is the only other operation that changes it.
\<close>

definition setCamera :: "Camera \<Rightarrow> world \<Rightarrow> world" where
  "setCamera c w = (emit (SetCamera c) w)\<lparr>controller := c\<rparr>"

definition cameraController_update :: "env \<Rightarrow> nat \<Rightarrow> float \<Rightarrow> world \<Rightarrow> world" where
  "cameraController_update en k dt w =
     (emit (Update dt) w)\<lparr>controller := update en k dt (controller w)\<rparr>"

section \<open>loadGltfFile\<close>

definition loadGltfFile :: "env \<Rightarrow> world \<Rightarrow> bool \<times> world" where
  "loadGltfFile en w =
     (let ret = load_ret en;
          w1 = (if load_err en \<noteq> [] then emit (Cerr (''Error: '' @ load_err en)) w else w);
          w2 = (if load_warn en \<noteq> [] then emit (Cerr (''Warning: '' @ load_warn en)) w1 else w1)
      in (ret, w2))"

section \<open>drawScene and the frame loop\<close>

text \<open>The body of \<open>drawNode\<close> is empty in the source: it makes no call.\<close>

definition drawNode :: "int \<Rightarrow> mat4 \<Rightarrow> gl_call list" where
  "drawNode nodeIdx parentMatrix = []"

text \<open>
  \<open>drawScene\<close>, with the function it calls on the roots as a parameter, so that the
  calls of that function can be told apart from what the function does.
\<close>

definition drawScene_with ::
  "(int \<Rightarrow> mat4 \<Rightarrow> gl_call list) \<Rightarrow> ViewerApplication \<Rightarrow> Model \<Rightarrow> Camera \<Rightarrow>
     fault + gl_call list" where
  "drawScene_with draw_node app model camera =
     (let cleared = [Viewport 0 0 (m_nWindowWidth app) (m_nWindowHeight app), Clear_COLOR_DEPTH]
      in if 0 \<le> defaultScene model then
           (case at_int (scenes model) (defaultScene model) of
              Inl e \<Rightarrow> Inl e
            | Inr scene \<Rightarrow>
                Inr (cleared @
                     concat (map (\<lambda>i. draw_node (nodes scene ! i) (mat4_diag 1))
                               [0..<length (nodes scene)])))
         else Inr cleared)"

definition drawScene :: "ViewerApplication \<Rightarrow> Model \<Rightarrow> Camera \<Rightarrow> fault + gl_call list" where
  "drawScene = drawScene_with drawNode"

definition gui :: "env \<Rightarrow> nat \<Rightarrow> Camera \<Rightarrow> world \<Rightarrow> world" where
  "gui en k camera w =
     (let w1 = emit (GuiWindow camera) w
      in if header_open en k \<and> button_clicked en k then emit (SetClipboard camera) w1 else w1)"

text \<open>
  One pass of the frame loop. The clock is read at the start of the pass and after the
  events are polled; the difference reaches the model as \<open>elapsed\<close>.
\<close>

definition frame ::
  "env \<Rightarrow> ViewerApplication \<Rightarrow> Model \<Rightarrow> nat \<Rightarrow> world \<Rightarrow> fault + world" where
  "frame en app model k w =
     (let camera = controller w;
          w1 = emit (GetCamera camera) w
      in (case drawScene app model camera of
            Inl e \<Rightarrow> Inl e
          | Inr cs \<Rightarrow>
              (let w2 = emit_gl cs w1;
                   w3 = emit ImguiNewFrame w2;
                   w4 = gui en k camera w3;
                   w5 = emit ImguiRenderFrame w4;
                   w6 = emit PollEvents w5;
                   ellapsedTime = elapsed en k;
                   guiHasFocus = (wantCaptureMouse en k \<or> wantCaptureKeyboard en k);
                   w7 = (if \<not> guiHasFocus then cameraController_update en k ellapsedTime w6
                         else w6)
               in Inr (emit SwapBuffers w7))))"

text \<open>
  The loop runs until the window is to close, which may be never: then it does not
  return (\<open>None\<close>).
\<close>

partial_function (option) frame_loop ::
  "env \<Rightarrow> ViewerApplication \<Rightarrow> Model \<Rightarrow> nat \<Rightarrow> world \<Rightarrow> (fault + world) option" where
  "frame_loop en app model k w =
     (if shouldClose en k then Some (Inr w)
      else (case frame en app model k w of
              Inl e \<Rightarrow> Some (Inl e)
            | Inr w' \<Rightarrow> frame_loop en app model (Suc k) w'))"

declare frame_loop.simps [code]

section \<open>run\<close>

text \<open>
  Everything \<open>run\<close> does before the frame loop: it ends in a fault, in an early return
  with an exit code, or ready to enter the loop. The projection matrix and, in
  \<open>drawScene\<close>, the view matrix are computed and then used by nothing, the body of
  \<open>drawNode\<close> being empty; they are values without effect and are left out. The
  compilation of the shaders is one event, taken to succeed.
\<close>

datatype prologue_result = Fault fault | Exit int world | Ready Model world

definition run_prologue :: "env \<Rightarrow> ViewerApplication \<Rightarrow> world \<Rightarrow> prologue_result" where
  "run_prologue en app w =
     (let w1 = emit CompileProgram w;
          w2 = emit_gl [GetUniformLocation ''uModelViewProjMatrix'',
                        GetUniformLocation ''uModelViewMatrix'',
                        GetUniformLocation ''uNormalMatrix''] w1;
          w3 = (if m_hasUserCamera app then setCamera (m_userCamera app) w2
                else setCamera \<lparr>eye = (0, 0, 0), center = (0, 0, - 1), up = (0, 1, 0)\<rparr> w2);
          (loaded, w4) = loadGltfFile en w3
      in if \<not> loaded then Exit (- 1) (emit (Cerr ''Failed to load glTF model'') w4)
         else (let model = load_model en;
                   (bufferObjects, w5) = createBufferObjects model w4
               in (case createVertexArrayObjects model bufferObjects [] w5 of
                     Inl e \<Rightarrow> Fault e
                   | Inr (vertexArrayObjects, meshIndexToVaoRange, w6) \<Rightarrow>
                       Ready model (emit_gl [Enable_DEPTH_TEST, UseProgram] w6))))"

definition run :: "env \<Rightarrow> ViewerApplication \<Rightarrow> world \<Rightarrow> (fault + int \<times> world) option" where
  "run en app w =
     (case run_prologue en app w of
        Fault e \<Rightarrow> Some (Inl e)
      | Exit code w' \<Rightarrow> Some (Inr (code, w'))
      | Ready model w' \<Rightarrow>
          (case frame_loop en app model 0 w' of
             None \<Rightarrow> None
           | Some (Inl e) \<Rightarrow> Some (Inl e)
           | Some (Inr w'') \<Rightarrow> Some (Inr (0, w''))))"

section \<open>Concrete inputs\<close>

definition example_world :: world where
  "example_world = \<lparr>trace = [], next_buffer = 1, next_vao = 1,
     controller = \<lparr>eye = (0, 0, 0), center = (0, 0, - 1), up = (0, 1, 0)\<rparr>\<rparr>"

text \<open>Two buffers, of three bytes and of one; and \<open>2^31\<close> buffers of one byte each.\<close>

definition two_buffer_model :: Model where
  "two_buffer_model =
     \<lparr>buffers = [\<lparr>data = [1, 2, 3]\<rparr>, \<lparr>data = [4]\<rparr>],
      bufferViews = [], accessors = [], meshes = [], model_nodes = [], scenes = [],
      defaultScene = - 1\<rparr>"

definition huge_buffer_model :: Model where
  "huge_buffer_model =
     \<lparr>buffers = replicate 2147483648 \<lparr>data = [0]\<rparr>,
      bufferViews = [], accessors = [], meshes = [], model_nodes = [], scenes = [],
      defaultScene = - 1\<rparr>"

text \<open>
  Two meshes, of two primitives and of one: an indexed primitive with positions, a
  primitive with no attribute at all, and a primitive with normals only.
\<close>

definition two_mesh_model :: Model where
  "two_mesh_model =
     \<lparr>buffers = [\<lparr>data = [1, 2, 3]\<rparr>],
      bufferViews = [\<lparr>bv_buffer = 0, bv_byteOffset = 4, bv_byteStride = 12\<rparr>],
      accessors = [\<lparr>acc_bufferView = 0, acc_byteOffset = 8,
                     acc_componentType = 5126, acc_type = 3\<rparr>],
      meshes = [\<lparr>primitives = [\<lparr>attributes = [(''POSITION'', 0)], indices = 0\<rparr>,
                                \<lparr>attributes = [], indices = - 1\<rparr>]\<rparr>,
                \<lparr>primitives = [\<lparr>attributes = [(''NORMAL'', 0)], indices = - 1\<rparr>]\<rparr>],
      model_nodes = [], scenes = [], defaultScene = - 1\<rparr>"

text \<open>One mesh of \<open>2^31\<close> primitives without attributes and without indices.\<close>

definition bare_primitive :: Primitive where
  "bare_primitive = \<lparr>attributes = [], indices = - 1\<rparr>"

definition huge_mesh_model :: Model where
  "huge_mesh_model =
     \<lparr>buffers = [], bufferViews = [], accessors = [],
      meshes = [\<lparr>primitives = replicate 2147483648 bare_primitive\<rparr>],
      model_nodes = [], scenes = [], defaultScene = - 1\<rparr>"

text \<open>
  A primitive whose POSITION accessor is a scalar of floats read with stride 4 and whose
  NORMAL accessor is a vec3 of floats in a buffer view of stride 0.
\<close>

definition scalar_primitive :: Primitive where
  "scalar_primitive = \<lparr>attributes = [(''POSITION'', 0), (''NORMAL'', 1)], indices = - 1\<rparr>"

definition scalar_model :: Model where
  "scalar_model =
     \<lparr>buffers = [\<lparr>data = [0, 0, 0, 0]\<rparr>],
      bufferViews = [\<lparr>bv_buffer = 0, bv_byteOffset = 0, bv_byteStride = 4\<rparr>,
                     \<lparr>bv_buffer = 0, bv_byteOffset = 0, bv_byteStride = 0\<rparr>],
      accessors = [\<lparr>acc_bufferView = 0, acc_byteOffset = 0,
                     acc_componentType = 5126, acc_type = TINYGLTF_TYPE_SCALAR\<rparr>,
                   \<lparr>acc_bufferView = 1, acc_byteOffset = 0,
                     acc_componentType = 5126, acc_type = TINYGLTF_TYPE_VEC3\<rparr>],
      meshes = [\<lparr>primitives = [scalar_primitive]\<rparr>],
      model_nodes = [], scenes = [], defaultScene = - 1\<rparr>"

text \<open>
  Node 0 (A: no transform, no mesh) with the child node 1 (B: translation (1,0,0), mesh
  0); mesh 0 has one primitive, with positions only; the default scene has the root 0.
\<close>

definition parent_child_model :: Model where
  "parent_child_model =
     \<lparr>buffers = [\<lparr>data = [0, 0, 0, 0, 0, 0, 0, 0, 0, 0, 0, 0]\<rparr>],
      bufferViews = [\<lparr>bv_buffer = 0, bv_byteOffset = 0, bv_byteStride = 12\<rparr>],
      accessors = [\<lparr>acc_bufferView = 0, acc_byteOffset = 0,
                     acc_componentType = 5126, acc_type = TINYGLTF_TYPE_VEC3\<rparr>],
      meshes = [\<lparr>primitives = [\<lparr>attributes = [(''POSITION'', 0)], indices = - 1\<rparr>]\<rparr>],
      model_nodes =
        [\<lparr>mesh = - 1, children = [1], translation = [], rotation = [], scale = [],
          matrix = []\<rparr>,
         \<lparr>mesh = 0, children = [], translation = [1, 0, 0], rotation = [], scale = [],
          matrix = []\<rparr>],
      scenes = [\<lparr>nodes = [0]\<rparr>], defaultScene = 0\<rparr>"

text \<open>
  One node with a mesh of one primitive that has positions and texture coordinates and
  no normals; the default scene has that node as its root.
\<close>

definition no_normal_model :: Model where
  "no_normal_model =
     \<lparr>buffers = [\<lparr>data = [0, 0, 0, 0, 0, 0, 0, 0, 0, 0, 0, 0, 0, 0, 0, 0, 0, 0, 0, 0]\<rparr>],
      bufferViews = [\<lparr>bv_buffer = 0, bv_byteOffset = 0, bv_byteStride = 20\<rparr>],
      accessors = [\<lparr>acc_bufferView = 0, acc_byteOffset = 0,
                     acc_componentType = 5126, acc_type = TINYGLTF_TYPE_VEC3\<rparr>,
                   \<lparr>acc_bufferView = 0, acc_byteOffset = 12,
                     acc_componentType = 5126, acc_type = TINYGLTF_TYPE_VEC2\<rparr>],
      meshes = [\<lparr>primitives =
                  [\<lparr>attributes = [(''POSITION'', 0), (''TEXCOORD_0'', 1)], indices = - 1\<rparr>]\<rparr>],
      model_nodes =
        [\<lparr>mesh = 0, children = [], translation = [], rotation = [], scale = [],
          matrix = []\<rparr>],
      scenes = [\<lparr>nodes = [0]\<rparr>], defaultScene = 0\<rparr>"

definition example_app :: ViewerApplication where
  "example_app = \<lparr>m_nWindowWidth = 1280, m_nWindowHeight = 720, m_hasUserCamera = False,
     m_userCamera = \<lparr>eye = (0, 0, 0), center = (0, 0, 0), up = (0, 0, 0)\<rparr>\<rparr>"

text \<open>
  An environment in which the loader succeeds with a warning and the window closes
  before the third frame; the overlay has the pointer in the first frame only.
\<close>

definition example_env :: env where
  "example_env =
     \<lparr>load_ret = True, load_err = [], load_warn = ''unused buffer'',
      load_model = parent_child_model,
      shouldClose = (\<lambda>k. 2 \<le> k),
      elapsed = (\<lambda>k. 1),
      header_open = (\<lambda>k. True), button_clicked = (\<lambda>k. False),
      wantCaptureMouse = (\<lambda>k. k = 0), wantCaptureKeyboard = (\<lambda>k. False),
      update = (\<lambda>k dt c. c\<lparr>center := (dt, 0, 0)\<rparr>)\<rparr>"

definition failing_env :: env where
  "failing_env = example_env\<lparr>load_ret := False, load_err := ''file not found''\<rparr>"

text \<open>
  What the example run has done when it enters the frame loop, for the camera the
  controller was seeded with; the world after one more frame; and the world the run
  ends in.
\<close>

definition prologue_events :: "Camera \<Rightarrow> event list" where
  "prologue_events c =
     [CompileProgram, Gl (GetUniformLocation ''uModelViewProjMatrix''),
      Gl (GetUniformLocation ''uModelViewMatrix''),
      Gl (GetUniformLocation ''uNormalMatrix''),
      SetCamera c,
      Cerr ''Warning: unused buffer'', Gl (GenBuffers 1),
      Gl (BindBuffer GL_ARRAY_BUFFER 1),
      Gl (BufferStorage GL_ARRAY_BUFFER 12 [0, 0, 0, 0, 0, 0, 0, 0, 0, 0, 0, 0] 0),
      Gl (BindBuffer GL_ARRAY_BUFFER 0), Gl (GenVertexArrays 1),
      Gl (BindVertexArray 1), Gl (EnableVertexAttribArray 0),
      Gl (BindBuffer GL_ARRAY_BUFFER 1),
      Gl (VertexAttribPointer 0 3 5126 False 12 0),
      Gl (BindVertexArray 0), Gl Enable_DEPTH_TEST, Gl UseProgram]"

definition frame_events :: "Camera \<Rightarrow> event list \<Rightarrow> event list" where
  "frame_events c updates =
     [GetCamera c, Gl (Viewport 0 0 1280 720), Gl Clear_COLOR_DEPTH, ImguiNewFrame,
      GuiWindow c, ImguiRenderFrame, PollEvents] @ updates @ [SwapBuffers]"

definition default_camera :: Camera where
  "default_camera = \<lparr>eye = (0, 0, 0), center = (0, 0, - 1), up = (0, 1, 0)\<rparr>"

definition lookat_camera :: Camera where
  "lookat_camera = \<lparr>eye = (0, 0, 5), center = (0, 0, 0), up = (0, 1, 0)\<rparr>"

definition lookat_app :: ViewerApplication where
  "lookat_app = \<lparr>m_nWindowWidth = 1280, m_nWindowHeight = 720, m_hasUserCamera = True,
     m_userCamera = lookat_camera\<rparr>"

definition example_world_ready :: world where
  "example_world_ready =
     \<lparr>trace = prologue_events default_camera, next_buffer = 2, next_vao = 2,
      controller = default_camera\<rparr>"

definition lookat_world_ready :: world where
  "lookat_world_ready =
     \<lparr>trace = prologue_events lookat_camera, next_buffer = 2, next_vao = 2,
      controller = lookat_camera\<rparr>"

definition example_world_after_frame :: world where
  "example_world_after_frame =
     \<lparr>trace = frame_events default_camera [Update 1], next_buffer = 1, next_vao = 1,
      controller = \<lparr>eye = (0, 0, 0), center = (1, 0, 0), up = (0, 1, 0)\<rparr>\<rparr>"

definition failing_world_done :: world where
  "failing_world_done =
     \<lparr>trace =
        [CompileProgram, Gl (GetUniformLocation ''uModelViewProjMatrix''),
         Gl (GetUniformLocation ''uModelViewMatrix''),
         Gl (GetUniformLocation ''uNormalMatrix''),
         SetCamera default_camera,
         Cerr ''Error: file not found'', Cerr ''Warning: unused buffer'',
         Cerr ''Failed to load glTF model''],
      next_buffer = 1, next_vao = 1, controller = default_camera\<rparr>"

definition example_world_first_frame :: world where
  "example_world_first_frame =
     \<lparr>trace = prologue_events default_camera @ frame_events default_camera [],
      next_buffer = 2, next_vao = 2, controller = default_camera\<rparr>"

definition example_world_done :: world where
  "example_world_done =
     \<lparr>trace = prologue_events default_camera @ frame_events default_camera [] @
              frame_events default_camera [Update 1],
      next_buffer = 2, next_vao = 2,
      controller = \<lparr>eye = (0, 0, 0), center = (1, 0, 0), up = (0, 1, 0)\<rparr>\<rparr>"

section \<open>Facts about the trace\<close>

lemma trace_emit [simp]: "trace (emit e w) = trace w @ [e]"
  by (simp add: emit_def)

lemma trace_emit_gl [simp]: "trace (emit_gl cs w) = trace w @ map Gl cs"
  by (simp add: emit_gl_def)

lemma length_write_names [simp]: "length (write_names n fresh arr) = length arr"
  by (simp add: write_names_def)

lemma trace_upload_fold:
  "trace (fold (upload_buffer model bo) [0..<n] w) =
     trace w @ map Gl (concat (map (\<lambda>i.
       [BindBuffer GL_ARRAY_BUFFER (bo ! i),
        BufferStorage GL_ARRAY_BUFFER (length (data (buffers model ! i)))
          (data (buffers model ! i)) 0]) [0..<n]))"
  by (induction n) (simp_all add: upload_buffer_def)

lemma createBufferObjects_trace:
  "length (fst (createBufferObjects model w)) = length (buffers model) \<and>
   trace (snd (createBufferObjects model w)) =
     trace w @ [Gl (GenBuffers (of_nat (length (buffers model))))] @
     map Gl (concat (map (\<lambda>i.
       [BindBuffer GL_ARRAY_BUFFER (fst (createBufferObjects model w) ! i),
        BufferStorage GL_ARRAY_BUFFER (length (data (buffers model ! i)))
          (data (buffers model ! i)) 0]) [0..<length (buffers model)])) @
     [Gl (BindBuffer GL_ARRAY_BUFFER 0)]"
  by (simp add: createBufferObjects_def glGenBuffers_def Let_def trace_upload_fold)

section \<open>Facts about the loops of createVertexArrayObjects\<close>

lemma for_each_snoc:
  "for_each (xs @ [x]) body s =
     (case for_each xs body s of Inl e \<Rightarrow> Inl e | Inr s' \<Rightarrow> body x s')"
  by (induction xs arbitrary: s) (auto split: sum.splits)

lemma sint_of_nat_small: "n < 2 ^ 31 \<Longrightarrow> sint (of_nat n :: 32 word) = int n"
  by (simp add: signed_of_nat signed_take_bit_int_eq_self)

lemma prims_before_Suc:
  "i < length (meshes model) \<Longrightarrow>
   prims_before model (Suc i) = prims_before model i + length (primitives (meshes model ! i))"
  by (simp add: prims_before_def take_Suc_conv_app_nth)

lemma prims_before_mono: "i \<le> j \<Longrightarrow> prims_before model i \<le> prims_before model j"
proof (induction j)
  case 0 then show ?case by simp
next
  case (Suc j)
  show ?case
  proof (cases "i = Suc j")
    case True then show ?thesis by simp
  next
    case False
    with Suc have le: "prims_before model i \<le> prims_before model j" by simp
    show ?thesis
    proof (cases "j < length (meshes model)")
      case True
      with le show ?thesis by (simp add: prims_before_Suc)
    next
      case False
      then show ?thesis using le by (simp add: prims_before_def)
    qed
  qed
qed

lemma primitive_loop_trace:
  "for_each [0..<n] (primitive_pass model bo vaos i offset) w = Inr w' \<Longrightarrow>
   trace w' = trace w @ map Gl (concat (map (\<lambda>k.
       BindVertexArray (vaos ! (offset + k)) #
       projr (configure_primitive model bo (primitives (meshes model ! i) ! k))) [0..<n])) \<and>
   next_vao w' = next_vao w \<and> next_buffer w' = next_buffer w \<and> controller w' = controller w"
proof (induction n arbitrary: w')
  case 0
  then show ?case by simp
next
  case (Suc n)
  from Suc.prems obtain w1 where
    w1: "for_each [0..<n] (primitive_pass model bo vaos i offset) w = Inr w1" and
    step: "primitive_pass model bo vaos i offset n w1 = Inr w'"
    by (auto simp: for_each_snoc split: sum.splits)
  from step obtain cs where
    cs: "configure_primitive model bo (primitives (meshes model ! i) ! n) = Inr cs" and
    w': "w' = emit_gl (BindVertexArray (vaos ! (offset + n)) # cs) w1"
    by (auto simp: primitive_pass_def split: sum.splits)
  from Suc.IH [OF w1] show ?case
    by (simp add: w' cs emit_gl_def)
qed


lemma mesh_calls_append:
  assumes "prims_before model (Suc j) \<le> length vs" "j < length (meshes model)"
  shows "mesh_calls model bo (vs @ ns) j = mesh_calls model bo vs j"
proof -
  have "\<And>k. k < length (primitives (meshes model ! j)) \<Longrightarrow>
          (vs @ ns) ! (prims_before model j + k) = vs ! (prims_before model j + k)"
    using assms by (simp add: prims_before_Suc nth_append)
  then have "map (\<lambda>k. BindVertexArray ((vs @ ns) ! (prims_before model j + k)) #
           projr (configure_primitive model bo (primitives (meshes model ! j) ! k)))
           [0..<length (primitives (meshes model ! j))] =
         map (\<lambda>k. BindVertexArray (vs ! (prims_before model j + k)) #
           projr (configure_primitive model bo (primitives (meshes model ! j) ! k)))
           [0..<length (primitives (meshes model ! j))]"
    by (intro map_cong [OF refl]) simp
  then show ?thesis by (simp only: mesh_calls_def)
qed

lemma mesh_loop_inv:
  assumes "for_each [0..<i] (mesh_pass model bo) ([], r0, w) = Inr (vaos, ranges, w')"
    and "i \<le> length (meshes model)" and "length r0 = length (meshes model)"
  shows "length vaos = prims_before model i \<and> length ranges = length r0 \<and>
     (\<forall>j<i. ranges ! j = \<lparr>vr_begin = of_nat (prims_before model j),
                           vr_count = of_nat (length (primitives (meshes model ! j)))\<rparr>) \<and>
     trace w' = trace w @ map Gl (concat (map (mesh_calls model bo vaos) [0..<i]))"
  using assms
proof (induction i arbitrary: vaos ranges w')
  case 0
  then show ?case by (simp add: prims_before_def)
next
  case (Suc i)
  from Suc.prems(1) obtain vaos1 ranges1 w1 where
    prev: "for_each [0..<i] (mesh_pass model bo) ([], r0, w) = Inr (vaos1, ranges1, w1)" and
    step: "mesh_pass model bo i (vaos1, ranges1, w1) = Inr (vaos, ranges, w')"
    by (auto simp: for_each_snoc split: sum.splits)
  from Suc.prems have i: "i < length (meshes model)" by simp
  from Suc.IH [OF prev] Suc.prems have
    len1: "length vaos1 = prims_before model i" and
    lenr1: "length ranges1 = length r0" and
    r1: "\<forall>j<i. ranges1 ! j = \<lparr>vr_begin = of_nat (prims_before model j),
                           vr_count = of_nat (length (primitives (meshes model ! j)))\<rparr>" and
    tr1: "trace w1 = trace w @ map Gl (concat (map (mesh_calls model bo vaos1) [0..<i]))"
    by simp_all
  let ?P = "length (primitives (meshes model ! i))"
  let ?names = "write_names (of_nat ?P) (next_vao w1) (replicate ?P 0)"
  let ?wg = "(emit (Gl (GenVertexArrays (of_nat ?P))) w1)
               \<lparr>next_vao := next_vao w1 + nat (sint (of_nat ?P :: 32 word))\<rparr>"
  from step obtain w2 where
    inner: "for_each [0..<?P] (primitive_pass model bo (vaos1 @ ?names) i (length vaos1)) ?wg = Inr w2" and
    vaos: "vaos = vaos1 @ ?names" and
    ranges0: "ranges = ranges1[i := (ranges1 ! i)
                 \<lparr>vr_begin := of_nat (length vaos1), vr_count := of_nat ?P\<rparr>]" and
    w': "w' = w2"
    by (auto simp: mesh_pass_def glGenVertexArrays_def Let_def split: sum.splits)
  have "(ranges1 ! i)\<lparr>vr_begin := of_nat (length vaos1), vr_count := of_nat ?P\<rparr> =
          \<lparr>vr_begin = of_nat (length vaos1), vr_count = of_nat ?P\<rparr>"
    by simp
  with ranges0 have
    ranges: "ranges = ranges1[i := \<lparr>vr_begin = of_nat (length vaos1), vr_count = of_nat ?P\<rparr>]"
    by simp
  have lenv: "length vaos = prims_before model (Suc i)"
    by (simp add: vaos len1 prims_before_Suc i)
  have lenr: "length ranges = length r0"
    by (simp add: ranges lenr1)
  have rr: "\<forall>j<Suc i. ranges ! j = \<lparr>vr_begin = of_nat (prims_before model j),
                           vr_count = of_nat (length (primitives (meshes model ! j)))\<rparr>"
  proof (intro allI impI)
    fix j assume "j < Suc i"
    then consider "j < i" | "j = i" by linarith
    then show "ranges ! j = \<lparr>vr_begin = of_nat (prims_before model j),
                           vr_count = of_nat (length (primitives (meshes model ! j)))\<rparr>"
    proof cases
      case 1 then show ?thesis using r1 by (simp add: ranges)
    next
      case 2 then show ?thesis using i lenr1 Suc.prems(3) by (simp add: ranges len1)
    qed
  qed
  have old: "map (mesh_calls model bo vaos) [0..<i] = map (mesh_calls model bo vaos1) [0..<i]"
  proof (rule map_cong [OF refl])
    fix j assume "j \<in> set [0..<i]"
    then have j: "j < i" by simp
    then have "prims_before model (Suc j) \<le> length vaos1"
      using prims_before_mono [of "Suc j" i model] by (simp add: len1)
    then show "mesh_calls model bo vaos j = mesh_calls model bo vaos1 j"
      unfolding vaos using j i by (intro mesh_calls_append) simp_all
  qed
  from primitive_loop_trace [OF inner] have
    tr2: "trace w2 = trace w1 @ map Gl (mesh_calls model bo vaos i)"
    by (simp add: mesh_calls_def vaos len1)
  have tr: "trace w' = trace w @ map Gl (concat (map (mesh_calls model bo vaos) [0..<Suc i]))"
    by (simp add: w' tr2 tr1 old)
  from lenv lenr rr tr show ?case by blast
qed

lemma length_resize [simp]: "length (resize n d xs) = n"
  by (simp add: resize_def)

lemma for_each_total:
  "(\<And>i s. i \<in> set xs \<Longrightarrow> \<exists>s'. body i s = Inr s') \<Longrightarrow> \<exists>s'. for_each xs body s = Inr s'"
proof (induction xs arbitrary: s)
  case Nil
  then show ?case by simp
next
  case (Cons x xs)
  from Cons.prems [of x s] obtain s1 where s1: "body x s = Inr s1" by auto
  from Cons.IH [of s1] Cons.prems obtain s' where "for_each xs body s1 = Inr s'" by auto
  with s1 show ?case by simp
qed

lemma configure_bare: "configure_primitive model bo bare_primitive = Inr []"
  by (simp add: configure_primitive_def vao_init_def bare_primitive_def)

section \<open>Facts about validated input, the camera and the frame loop\<close>

lemma vao_init_absent: "map_of (attributes primitive) str = None \<Longrightarrow> vao_init model primitive bo str index = Inr []"
  by (simp add: vao_init_def)

lemma vao_init_ok:
  assumes "attribute_ok model p str" "length bo = length (buffers model)"
  shows "\<exists>cs. vao_init model p bo str index = Inr cs"
proof (cases "map_of (attributes p) str")
  case None
  then show ?thesis by (simp add: vao_init_def)
next
  case (Some a)
  with assms show ?thesis
    by (simp add: vao_init_def attribute_ok_def accessor_ok_def at_int_def Let_def)
qed

lemma configure_primitive_ok:
  assumes "primitive_ok model p" "length bo = length (buffers model)"
  shows "\<exists>cs. configure_primitive model bo p = Inr cs"
proof -
  from assms obtain c0 c1 c2 where
    "vao_init model p bo ''POSITION'' VERTEX_ATTRIB_POSITION_IDX = Inr c0"
    "vao_init model p bo ''NORMAL'' VERTEX_ATTRIB_NORMAL_IDX = Inr c1"
    "vao_init model p bo ''TEXCOORD_0'' VERTEX_ATTRIB_TEXCOORD0_IDX = Inr c2"
    unfolding primitive_ok_def using vao_init_ok by metis
  moreover have "0 \<le> indices p \<Longrightarrow> accessor_ok model (indices p)"
    using assms by (simp add: primitive_ok_def)
  ultimately show ?thesis
    using assms(2) by (auto simp: configure_primitive_def accessor_ok_def at_int_def)
qed

lemma mesh_pass_ok:
  assumes "list_all (primitive_ok model) (primitives (meshes model ! i))"
    and "length bo = length (buffers model)"
  shows "\<exists>st'. mesh_pass model bo i st = Inr st'"
proof -
  obtain vs rs w where st: "st = (vs, rs, w)" by (cases st)
  have inner: "\<exists>w'. for_each [0..<length (primitives (meshes model ! i))]
                  (primitive_pass model bo vs' i off) w1 = Inr w'" for vs' off w1
  proof (rule for_each_total)
    fix k s assume "k \<in> set [0..<length (primitives (meshes model ! i))]"
    then have "primitive_ok model (primitives (meshes model ! i) ! k)"
      using assms(1) by (simp add: list_all_length)
    from configure_primitive_ok [OF this assms(2)]
    show "\<exists>s'. primitive_pass model bo vs' i off k s = Inr s'"
      by (auto simp: primitive_pass_def)
  qed
  show ?thesis
    unfolding st mesh_pass_def glGenVertexArrays_def Let_def prod.case
    using inner by (metis (no_types, lifting) sum.case(2))
qed

lemma createVertexArrayObjects_ok:
  assumes "list_all (\<lambda>m. list_all (primitive_ok model) (primitives m)) (meshes model)"
    and "length bo = length (buffers model)"
  shows "\<exists>vaos ranges w'. createVertexArrayObjects model bo r0 w = Inr (vaos, ranges, w')"
proof -
  have "\<exists>st'. for_each [0..<length (meshes model)] (mesh_pass model bo) st = Inr st'" for st
  proof (rule for_each_total)
    fix i s assume "i \<in> set [0..<length (meshes model)]"
    then have "list_all (primitive_ok model) (primitives (meshes model ! i))"
      using assms(1) by (simp add: list_all_length)
    from mesh_pass_ok [OF this assms(2)] show "\<exists>st'. mesh_pass model bo i s = Inr st'" .
  qed
  then obtain vaos ranges w1 where
    "for_each [0..<length (meshes model)] (mesh_pass model bo)
       ([], resize (length (meshes model)) \<lparr>vr_begin = 0, vr_count = 0\<rparr> r0, w)
         = Inr (vaos, ranges, w1)"
    by (metis prod_cases3)
  then show ?thesis
    by (simp add: createVertexArrayObjects_def Let_def)
qed

lemma length_createBufferObjects:
  "length (fst (createBufferObjects model w)) = length (buffers model)"
  by (simp add: createBufferObjects_def glGenBuffers_def Let_def)

lemma controller_emit [simp]: "controller (emit e w) = controller w"
  by (simp add: emit_def)

lemma controller_emit_gl [simp]: "controller (emit_gl cs w) = controller w"
  by (simp add: emit_gl_def)

lemma controller_upload_fold:
  "controller (fold (upload_buffer model bo) xs w) = controller w"
  by (induction xs arbitrary: w) (simp_all add: upload_buffer_def)

lemma trace_upload_fold_prefix:
  "\<exists>es. trace (fold (upload_buffer model bo) xs w) = trace w @ es"
proof (induction xs arbitrary: w)
  case Nil
  then show ?case by simp
next
  case (Cons x xs)
  from Cons [of "upload_buffer model bo x w"] show ?case
    by (auto simp: upload_buffer_def)
qed

lemma createBufferObjects_keeps:
  "controller (snd (createBufferObjects model w)) = controller w \<and>
   (\<exists>es. trace (snd (createBufferObjects model w)) = trace w @ es)"
proof -
  let ?w1 = "(emit (Gl (GenBuffers (of_nat (length (buffers model))))) w)
     \<lparr>next_buffer := next_buffer w + nat (sint (of_nat (length (buffers model)) :: 32 word))\<rparr>"
  obtain es where "trace (fold (upload_buffer model
       (write_names (of_nat (length (buffers model))) (next_buffer w)
          (replicate (length (buffers model)) 0))) [0..<length (buffers model)] ?w1)
     = trace ?w1 @ es"
    using trace_upload_fold_prefix by blast
  then show ?thesis
    by (simp add: createBufferObjects_def glGenBuffers_def Let_def controller_upload_fold)
qed

lemma mesh_loop_controller:
  "for_each [0..<i] (mesh_pass model bo) (vs0, r0, w) = Inr (vaos, ranges, w') \<Longrightarrow>
   controller w' = controller w \<and> (\<exists>es. trace w' = trace w @ es)"
proof (induction i arbitrary: vaos ranges w')
  case 0
  then show ?case by simp
next
  case (Suc i)
  from Suc.prems obtain vaos1 ranges1 w1 where
    prev: "for_each [0..<i] (mesh_pass model bo) (vs0, r0, w) = Inr (vaos1, ranges1, w1)" and
    step: "mesh_pass model bo i (vaos1, ranges1, w1) = Inr (vaos, ranges, w')"
    by (auto simp: for_each_snoc split: sum.splits)
  let ?P = "length (primitives (meshes model ! i))"
  let ?wg = "(emit (Gl (GenVertexArrays (of_nat ?P))) w1)
               \<lparr>next_vao := next_vao w1 + nat (sint (of_nat ?P :: 32 word))\<rparr>"
  from step obtain vs' where
    inner: "for_each [0..<?P] (primitive_pass model bo vs' i (length vaos1)) ?wg = Inr w'"
    by (auto simp: mesh_pass_def glGenVertexArrays_def Let_def split: sum.splits)
  from primitive_loop_trace [OF inner] Suc.IH [OF prev] show ?case
    by auto
qed

lemma createVertexArrayObjects_keeps:
  assumes "createVertexArrayObjects model bo r0 w = Inr (vaos, ranges, w')"
  shows "controller w' = controller w \<and> (\<exists>es. trace w' = trace w @ es)"
proof -
  from assms obtain w1 where
    loop: "for_each [0..<length (meshes model)] (mesh_pass model bo)
       ([], resize (length (meshes model)) \<lparr>vr_begin = 0, vr_count = 0\<rparr> r0, w)
         = Inr (vaos, ranges, w1)" and
    w': "w' = emit_gl [BindVertexArray 0] w1"
    by (auto simp: createVertexArrayObjects_def Let_def split: sum.splits)
  from mesh_loop_controller [OF loop] show ?thesis
    by (auto simp: w')
qed

lemma loadGltfFile_keeps:
  "controller (snd (loadGltfFile en w)) = controller w \<and>
   (\<exists>es. trace (snd (loadGltfFile en w)) = trace w @ es)"
  by (simp add: loadGltfFile_def Let_def)

lemma drawScene_ok:
  "defaultScene model < int (length (scenes model)) \<Longrightarrow> \<exists>cs. drawScene app model camera = Inr cs"
  by (auto simp: drawScene_def drawScene_with_def at_int_def Let_def)

lemma frame_ok:
  assumes "defaultScene model < int (length (scenes model))"
  shows "\<exists>w'. frame en app model k w = Inr w'"
proof -
  from drawScene_ok [OF assms] obtain cs where
    "drawScene app model (controller w) = Inr cs" by blast
  then show ?thesis by (simp add: frame_def Let_def)
qed

lemma frame_loop_returns:
  assumes close: "shouldClose en n"
    and ok: "\<And>k w. \<exists>w'. frame en app model k w = Inr w'"
  shows "k \<le> n \<Longrightarrow> \<exists>w'. frame_loop en app model k w = Some (Inr w')"
proof (induction "n - k" arbitrary: k w)
  case 0
  then have "k = n" by simp
  with close show ?case by (simp add: frame_loop.simps)
next
  case (Suc d)
  show ?case
  proof (cases "shouldClose en k")
    case True
    then show ?thesis by (simp add: frame_loop.simps)
  next
    case False
    from ok obtain w1 where w1: "frame en app model k w = Inr w1" by blast
    from Suc have "d = n - Suc k" "Suc k \<le> n" by simp_all
    from Suc.hyps(1) [OF this] obtain w' where
      "frame_loop en app model (Suc k) w1 = Some (Inr w')" by blast
    with False w1 show ?thesis
      by (subst frame_loop.simps) simp
  qed
qed

lemma run_prologue_seeds:
  assumes "run_prologue en app w = Ready model w'"
  shows "controller w' =
           (if m_hasUserCamera app then m_userCamera app
            else \<lparr>eye = (0, 0, 0), center = (0, 0, - 1), up = (0, 1, 0)\<rparr>) \<and>
         (\<exists>es. trace w' = trace w @
            [CompileProgram, Gl (GetUniformLocation ''uModelViewProjMatrix''),
             Gl (GetUniformLocation ''uModelViewMatrix''),
             Gl (GetUniformLocation ''uNormalMatrix''),
             SetCamera (if m_hasUserCamera app then m_userCamera app
                else \<lparr>eye = (0, 0, 0), center = (0, 0, - 1), up = (0, 1, 0)\<rparr>)] @ es)"
proof -
  let ?cam = "if m_hasUserCamera app then m_userCamera app
              else \<lparr>eye = (0, 0, 0), center = (0, 0, - 1), up = (0, 1, 0)\<rparr>"
  let ?w3 = "setCamera ?cam
               (emit_gl [GetUniformLocation ''uModelViewProjMatrix'',
                        GetUniformLocation ''uModelViewMatrix'',
                        GetUniformLocation ''uNormalMatrix''] (emit CompileProgram w))"
  let ?w4 = "snd (loadGltfFile en ?w3)"
  let ?bo = "fst (createBufferObjects (load_model en) ?w4)"
  let ?w5 = "snd (createBufferObjects (load_model en) ?w4)"
  have c3: "controller ?w3 = ?cam"
    by (simp add: setCamera_def)
  have t3: "trace ?w3 = trace w @
            [CompileProgram, Gl (GetUniformLocation ''uModelViewProjMatrix''),
             Gl (GetUniformLocation ''uModelViewMatrix''),
             Gl (GetUniformLocation ''uNormalMatrix''), SetCamera ?cam]"
    by (simp add: setCamera_def)
  from assms obtain vaos ranges w6 where
    vao: "createVertexArrayObjects (load_model en) ?bo [] ?w5 = Inr (vaos, ranges, w6)" and
    w': "w' = emit_gl [Enable_DEPTH_TEST, UseProgram] w6"
    by (auto simp: run_prologue_def Let_def case_prod_beta split: if_splits sum.splits)
  from loadGltfFile_keeps [of en ?w3] obtain es4 where
    c4: "controller ?w4 = controller ?w3" and t4: "trace ?w4 = trace ?w3 @ es4"
    by blast
  from createBufferObjects_keeps [of "load_model en" ?w4] obtain es5 where
    c5: "controller ?w5 = controller ?w4" and t5: "trace ?w5 = trace ?w4 @ es5"
    by blast
  from createVertexArrayObjects_keeps [OF vao] obtain es6 where
    c6: "controller w6 = controller ?w5" and t6: "trace w6 = trace ?w5 @ es6"
    by blast
  have "controller w' = ?cam"
    by (simp only: w' controller_emit_gl c6 c5 c4 c3)
  moreover have "trace w' = trace w @
            [CompileProgram, Gl (GetUniformLocation ''uModelViewProjMatrix''),
             Gl (GetUniformLocation ''uModelViewMatrix''),
             Gl (GetUniformLocation ''uNormalMatrix''), SetCamera ?cam] @
            (es4 @ es5 @ es6 @ map Gl [Enable_DEPTH_TEST, UseProgram])"
    by (simp only: w' trace_emit_gl t6 t5 t4 t3 append_assoc)
  ultimately show ?thesis by blast
qed

section \<open>Facts about the names the GL hands out and about what a run has written\<close>

lemma write_names_fresh:
  assumes "length arr < 2 ^ 31"
  shows "write_names (of_nat (length arr)) fresh arr = map (\<lambda>j. fresh + j) [0..<length arr]"
proof -
  have s: "sint (of_nat (length arr) :: 32 word) = int (length arr)"
    using assms by (rule sint_of_nat_small)
  have "map (\<lambda>j. if j < length arr then fresh + j else arr ! j) [0..<length arr] =
        map (\<lambda>j. fresh + j) [0..<length arr]"
    by (rule map_cong [OF refl]) simp
  then show ?thesis
    by (simp add: write_names_def s)
qed

lemma fst_createBufferObjects:
  "fst (createBufferObjects model w) =
     write_names (of_nat (length (buffers model))) (next_buffer w)
       (replicate (length (buffers model)) 0)"
  by (simp add: createBufferObjects_def glGenBuffers_def Let_def)

lemma next_buffer_upload_fold:
  "next_buffer (fold (upload_buffer model bo) xs w) = next_buffer w"
  by (induction xs arbitrary: w) (simp_all add: upload_buffer_def emit_gl_def)

lemma next_buffer_createBufferObjects:
  "next_buffer (snd (createBufferObjects model w)) =
     next_buffer w + nat (sint (of_nat (length (buffers model)) :: 32 word))"
  by (simp add: createBufferObjects_def glGenBuffers_def Let_def next_buffer_upload_fold
      emit_gl_def emit_def)

lemma upt_split_map:
  "map f [0..<a + b] = map f [0..<a] @ map (\<lambda>j. f (a + j)) [0..<b]"
proof -
  have "[0..<a + b] = [0..<a] @ map (\<lambda>j. a + j) [0..<b]"
    by (induction b) simp_all
  then show ?thesis by (simp add: comp_def)
qed

lemma mesh_loop_names:
  assumes "for_each [0..<i] (mesh_pass model bo) ([], r0, w) = Inr (vaos, ranges, w')"
    and "i \<le> length (meshes model)" and "prims_before model i < 2 ^ 31"
  shows "vaos = map (\<lambda>j. next_vao w + j) [0..<prims_before model i] \<and>
         next_vao w' = next_vao w + prims_before model i"
  using assms
proof (induction i arbitrary: vaos ranges w')
  case 0
  then show ?case by (simp add: prims_before_def)
next
  case (Suc i)
  from Suc.prems(1) obtain vaos1 ranges1 w1 where
    prev: "for_each [0..<i] (mesh_pass model bo) ([], r0, w) = Inr (vaos1, ranges1, w1)" and
    step: "mesh_pass model bo i (vaos1, ranges1, w1) = Inr (vaos, ranges, w')"
    by (auto simp: for_each_snoc split: sum.splits)
  from Suc.prems have i: "i < length (meshes model)" by simp
  let ?P = "length (primitives (meshes model ! i))"
  from Suc.prems(3) i have fit: "prims_before model i + ?P < 2 ^ 31"
    by (simp add: prims_before_Suc)
  then have small: "prims_before model i < 2 ^ 31" and P: "?P < 2 ^ 31" by simp_all
  from Suc.IH [OF prev] i small have
    v1: "vaos1 = map (\<lambda>j. next_vao w + j) [0..<prims_before model i]" and
    n1: "next_vao w1 = next_vao w + prims_before model i"
    by simp_all
  let ?names = "write_names (of_nat ?P) (next_vao w1) (replicate ?P 0)"
  let ?wg = "(emit (Gl (GenVertexArrays (of_nat ?P))) w1)
               \<lparr>next_vao := next_vao w1 + nat (sint (of_nat ?P :: 32 word))\<rparr>"
  from step obtain vs' where
    inner: "for_each [0..<?P] (primitive_pass model bo vs' i (length vaos1)) ?wg = Inr w'" and
    vaos: "vaos = vaos1 @ ?names"
    by (auto simp: mesh_pass_def glGenVertexArrays_def Let_def split: sum.splits)
  have names: "?names = map (\<lambda>j. next_vao w1 + j) [0..<?P]"
    using write_names_fresh [of "replicate ?P 0" "next_vao w1"] P by simp
  have "vaos = map (\<lambda>j. next_vao w + j) [0..<prims_before model i + ?P]"
    unfolding vaos names v1 by (simp add: n1 upt_split_map add.assoc)
  moreover from primitive_loop_trace [OF inner] have "next_vao w' = next_vao w + (prims_before model i + ?P)"
    using P by (simp add: n1 sint_of_nat_small)
  ultimately show ?case
    using i by (simp add: prims_before_Suc)
qed

lemma frame_extends:
  "frame en app model k w = Inr w' \<Longrightarrow> \<exists>es. trace w' = trace w @ es"
  by (auto simp: frame_def gui_def cameraController_update_def Let_def split: sum.splits)


lemma frame_loop_extends_all:
  assumes major: "frame_loop en app model k w = Some r"
  shows "\<forall>w'. r = Inr w' \<longrightarrow> (\<exists>es. trace w' = trace w @ es)"
proof (rule frame_loop.raw_induct
    [where P = "\<lambda>en app model k w r. \<forall>w'. r = Inr w' \<longrightarrow> (\<exists>es. trace w' = trace w @ es)",
     OF _ major])
  fix fl en app model k w r
  assume IH: "\<And>en app model k w r. fl en app model k w = Some r \<Longrightarrow>
                \<forall>w'. r = Inr w' \<longrightarrow> (\<exists>es. trace w' = trace w @ es)"
    and body: "(if shouldClose en k then Some (Inr w)
                else case frame en app model k w of Inl e \<Rightarrow> Some (Inl e)
                     | Inr w' \<Rightarrow> fl en app model (Suc k) w') = Some r"
  show "\<forall>w'. r = Inr w' \<longrightarrow> (\<exists>es. trace w' = trace w @ es)"
  proof (cases "shouldClose en k")
    case True
    with body show ?thesis by auto
  next
    case False
    show ?thesis
    proof (cases "frame en app model k w")
      case (Inl e)
      with False body show ?thesis by auto
    next
      case (Inr w1)
      with False body have l: "fl en app model (Suc k) w1 = Some r" by simp
      from frame_extends [OF Inr] obtain es1 where e1: "trace w1 = trace w @ es1" by blast
      show ?thesis
      proof (intro allI impI)
        fix w' assume "r = Inr w'"
        with IH [OF l] obtain es2 where "trace w' = trace w1 @ es2" by blast
        with e1 show "\<exists>es. trace w' = trace w @ es" by simp
      qed
    qed
  qed
qed

lemma frame_loop_extends:
  "frame_loop en app model k w = Some (Inr w') \<Longrightarrow> \<exists>es. trace w' = trace w @ es"
  using frame_loop_extends_all by blast

lemma fst_loadGltfFile: "fst (loadGltfFile en w) = load_ret en"
  by (simp add: loadGltfFile_def Let_def)

lemma run_keeps_loader_output:
  assumes "run en app w = Some (Inr (code, w'))"
  shows "\<exists>w3 es. trace w' = trace (snd (loadGltfFile en w3)) @ es"
proof (cases "load_ret en")
  case False
  with assms have "\<exists>w3. w' = emit (Cerr ''Failed to load glTF model'') (snd (loadGltfFile en w3))"
    by (auto simp: run_def run_prologue_def Let_def case_prod_beta fst_loadGltfFile)
  then obtain w3 where "w' = emit (Cerr ''Failed to load glTF model'') (snd (loadGltfFile en w3))"
    by blast
  then have "trace w' = trace (snd (loadGltfFile en w3)) @ [Cerr ''Failed to load glTF model'']"
    by simp
  then show ?thesis by blast
next
  case True
  let ?w3 = "if m_hasUserCamera app
        then setCamera (m_userCamera app)
          (emit_gl [GetUniformLocation ''uModelViewProjMatrix'',
                    GetUniformLocation ''uModelViewMatrix'',
                    GetUniformLocation ''uNormalMatrix''] (emit CompileProgram w))
        else setCamera \<lparr>eye = (0, 0, 0), center = (0, 0, - 1), up = (0, 1, 0)\<rparr>
          (emit_gl [GetUniformLocation ''uModelViewProjMatrix'',
                    GetUniformLocation ''uModelViewMatrix'',
                    GetUniformLocation ''uNormalMatrix''] (emit CompileProgram w))"
  let ?w4 = "snd (loadGltfFile en ?w3)"
  let ?m = "load_model en"
  let ?bo = "fst (createBufferObjects ?m ?w4)"
  let ?w5 = "snd (createBufferObjects ?m ?w4)"
  from assms True obtain vaos ranges w6 where
    vao: "createVertexArrayObjects ?m ?bo [] ?w5 = Inr (vaos, ranges, w6)" and
    loop: "frame_loop en app ?m 0 (emit_gl [Enable_DEPTH_TEST, UseProgram] w6) = Some (Inr w')"
    by (auto simp: run_def run_prologue_def Let_def case_prod_beta fst_loadGltfFile
        split: sum.splits option.splits)
  from createBufferObjects_keeps [of ?m ?w4] obtain es5 where
    t5: "trace ?w5 = trace ?w4 @ es5" by blast
  from createVertexArrayObjects_keeps [OF vao] obtain es6 where
    t6: "trace w6 = trace ?w5 @ es6" by blast
  from frame_loop_extends [OF loop] obtain es7 where
    t7: "trace w' = trace (emit_gl [Enable_DEPTH_TEST, UseProgram] w6) @ es7" by blast
  have "trace w' = trace ?w4 @ (es5 @ es6 @ map Gl [Enable_DEPTH_TEST, UseProgram] @ es7)"
    by (simp only: t7 trace_emit_gl t6 t5 append_assoc)
  then show ?thesis by blast
qed

section \<open>Facts about the concrete inputs\<close>

lemma first_frame_example:
  "frame example_env example_app parent_child_model 0 example_world_ready =
     Inr example_world_first_frame"
  by code_simp

lemma second_frame_example:
  "frame example_env example_app parent_child_model 1 example_world_first_frame =
     Inr example_world_done"
  by code_simp

lemma prologue_example:
  "run_prologue example_env example_app example_world = Ready parent_child_model example_world_ready"
  by code_simp

lemma run_example:
  "run example_env example_app example_world = Some (Inr (0, example_world_done))"
proof -
  have close: "\<not> shouldClose example_env 0" "\<not> shouldClose example_env (Suc 0)"
    "shouldClose example_env (Suc (Suc 0))"
    by (simp_all add: example_env_def)
  have "frame_loop example_env example_app parent_child_model (Suc (Suc 0)) example_world_done
          = Some (Inr example_world_done)"
    using close by (subst frame_loop.simps) simp
  then have "frame_loop example_env example_app parent_child_model (Suc 0)
          example_world_first_frame = Some (Inr example_world_done)"
    using close second_frame_example by (subst frame_loop.simps) simp
  then have "frame_loop example_env example_app parent_child_model 0 example_world_ready
          = Some (Inr example_world_done)"
    using close first_frame_example by (subst frame_loop.simps) simp
  then show ?thesis
    by (simp add: run_def prologue_example)
qed

lemma frame_example:
  "frame example_env example_app parent_child_model 1 example_world = Inr example_world_after_frame"
  by code_simp

lemma prologue_lookat:
  "run_prologue example_env lookat_app example_world = Ready parent_child_model lookat_world_ready"
  by code_simp

lemma run_failing:
  "run failing_env example_app example_world = Some (Inr (- 1, failing_world_done))"
  by code_simp

lemma model_ok_example: "model_ok (load_model example_env)"
  by code_simp

section \<open>Claims\<close>

text \<open>
  C3, as the code has it. For every Model with fewer than \<open>2^31\<close> buffers,
  \<open>createBufferObjects\<close> returns one handle per buffer, handle \<open>i\<close> being the \<open>i\<close>-th
  name that \<open>glGenBuffers\<close> has just generated, so the handles are pairwise different
  (and none is 0, the GL handing out no such name); and for each buffer \<open>i\<close>, in order,
  it binds handle \<open>i\<close> and creates its storage with flags \<open>0\<close> (immutable), with the
  size equal to the length of buffer \<open>i\<close>'s bytes and those bytes as the initial
  contents; last it unbinds.
\<close>

theorem createBufferObjects_gives_each_buffer_its_handle:
  assumes small: "length (buffers model) < 2 ^ 31"
  shows "fst (createBufferObjects model w) =
           map (\<lambda>i. next_buffer w + i) [0..<length (buffers model)] \<and>
         length (fst (createBufferObjects model w)) = length (buffers model) \<and>
         distinct (fst (createBufferObjects model w)) \<and>
         (0 < next_buffer w \<longrightarrow> 0 \<notin> set (fst (createBufferObjects model w))) \<and>
         next_buffer (snd (createBufferObjects model w)) =
           next_buffer w + length (buffers model) \<and>
         trace (snd (createBufferObjects model w)) =
           trace w @ [Gl (GenBuffers (of_nat (length (buffers model))))] @
           map Gl (concat (map (\<lambda>i.
             [BindBuffer GL_ARRAY_BUFFER (next_buffer w + i),
              BufferStorage GL_ARRAY_BUFFER (length (data (buffers model ! i)))
                (data (buffers model ! i)) 0]) [0..<length (buffers model)])) @
           [Gl (BindBuffer GL_ARRAY_BUFFER 0)]"
proof -
  let ?n = "length (buffers model)"
  let ?bo = "fst (createBufferObjects model w)"
  have bo: "?bo = map (\<lambda>i. next_buffer w + i) [0..<?n]"
    using write_names_fresh [of "replicate ?n 0" "next_buffer w"] small
    by (simp add: fst_createBufferObjects)
  have len: "length ?bo = ?n"
    by (simp add: bo)
  have dist: "distinct ?bo"
    by (simp add: bo distinct_map inj_on_def)
  have nonzero: "0 < next_buffer w \<longrightarrow> 0 \<notin> set ?bo"
    by (auto simp: bo)
  have nxt: "next_buffer (snd (createBufferObjects model w)) = next_buffer w + ?n"
    using small by (simp add: next_buffer_createBufferObjects sint_of_nat_small)
  have calls: "map (\<lambda>i.
             [BindBuffer GL_ARRAY_BUFFER (?bo ! i),
              BufferStorage GL_ARRAY_BUFFER (length (data (buffers model ! i)))
                (data (buffers model ! i)) 0]) [0..<?n] =
         map (\<lambda>i.
             [BindBuffer GL_ARRAY_BUFFER (next_buffer w + i),
              BufferStorage GL_ARRAY_BUFFER (length (data (buffers model ! i)))
                (data (buffers model ! i)) 0]) [0..<?n]"
    by (rule map_cong [OF refl]) (simp add: bo)
  have tr: "trace (snd (createBufferObjects model w)) =
           trace w @ [Gl (GenBuffers (of_nat ?n))] @
           map Gl (concat (map (\<lambda>i.
             [BindBuffer GL_ARRAY_BUFFER (next_buffer w + i),
              BufferStorage GL_ARRAY_BUFFER (length (data (buffers model ! i)))
                (data (buffers model ! i)) 0]) [0..<?n])) @
           [Gl (BindBuffer GL_ARRAY_BUFFER 0)]"
    using createBufferObjects_trace [of model w] by (simp only: calls)
  from bo len dist nonzero nxt tr show ?thesis by blast
qed

theorem createBufferObjects_gives_each_buffer_its_handle_witness:
  "length (buffers two_buffer_model) < 2 ^ 31 \<and>
   0 < next_buffer example_world \<and>
   fst (createBufferObjects two_buffer_model example_world) = [1, 2] \<and>
   distinct (fst (createBufferObjects two_buffer_model example_world)) \<and>
   0 \<notin> set (fst (createBufferObjects two_buffer_model example_world)) \<and>
   trace (snd (createBufferObjects two_buffer_model example_world)) =
     [Gl (GenBuffers 2),
      Gl (BindBuffer GL_ARRAY_BUFFER 1), Gl (BufferStorage GL_ARRAY_BUFFER 3 [1, 2, 3] 0),
      Gl (BindBuffer GL_ARRAY_BUFFER 2), Gl (BufferStorage GL_ARRAY_BUFFER 1 [4] 0),
      Gl (BindBuffer GL_ARRAY_BUFFER 0)]"
proof -
  have h1: "length (buffers two_buffer_model) < 2 ^ 31"
    by (simp add: two_buffer_model_def)
  have h2: "0 < next_buffer example_world"
    by (simp add: example_world_def)
  note t = createBufferObjects_gives_each_buffer_its_handle [OF h1, of example_world]
  have n: "[0..<length (buffers two_buffer_model)] = [0, 1]"
    by (simp add: two_buffer_model_def upt_rec)
  from t have c1: "fst (createBufferObjects two_buffer_model example_world) = [1, 2]"
    by (simp add: n example_world_def)
  from t have c2: "distinct (fst (createBufferObjects two_buffer_model example_world))"
    by blast
  from t h2 have c3: "0 \<notin> set (fst (createBufferObjects two_buffer_model example_world))"
    by blast
  from t have c4: "trace (snd (createBufferObjects two_buffer_model example_world)) =
     [Gl (GenBuffers 2),
      Gl (BindBuffer GL_ARRAY_BUFFER 1), Gl (BufferStorage GL_ARRAY_BUFFER 3 [1, 2, 3] 0),
      Gl (BindBuffer GL_ARRAY_BUFFER 2), Gl (BufferStorage GL_ARRAY_BUFFER 1 [4] 0),
      Gl (BindBuffer GL_ARRAY_BUFFER 0)]"
    by (simp add: n example_world_def two_buffer_model_def)
  from h1 h2 c1 c2 c3 c4 show ?thesis by blast
qed

text \<open>
  C3 as stated fails where the number of buffers does not fit \<open>GLsizei\<close>: for \<open>2^31\<close>
  buffers the count passed to \<open>glGenBuffers\<close> is \<open>- 2^31\<close>, no name is generated, and
  the vector returned holds 0 in every place, so that buffers 0 and 1 have the same
  handle and no handle has storage of its own.
\<close>

theorem createBufferObjects_count_wraps:
  "length (buffers huge_buffer_model) = 2147483648 \<and>
   sint (of_nat (length (buffers huge_buffer_model)) :: GLsizei) = - 2147483648 \<and>
   fst (createBufferObjects huge_buffer_model example_world) = replicate 2147483648 0 \<and>
   fst (createBufferObjects huge_buffer_model example_world) ! 0 =
     fst (createBufferObjects huge_buffer_model example_world) ! 1 \<and>
   next_buffer (snd (createBufferObjects huge_buffer_model example_world)) =
     next_buffer example_world"
proof -
  have len: "length (buffers huge_buffer_model) = 2147483648"
    by (simp add: huge_buffer_model_def)
  have neg: "sint (of_nat (length (buffers huge_buffer_model)) :: GLsizei) = - 2147483648"
    by (simp add: len)
  have bo: "fst (createBufferObjects huge_buffer_model example_world) = replicate 2147483648 0"
    by (simp add: fst_createBufferObjects write_names_def len)
  have same: "fst (createBufferObjects huge_buffer_model example_world) ! 0 =
     fst (createBufferObjects huge_buffer_model example_world) ! 1"
    by (simp add: bo)
  have nxt: "next_buffer (snd (createBufferObjects huge_buffer_model example_world)) =
     next_buffer example_world"
    by (simp add: next_buffer_createBufferObjects len)
  from len neg bo same nxt show ?thesis by blast
qed

text \<open>
  C2, as the code has it. When \<open>createVertexArrayObjects\<close> returns (no reference of the
  Model is out of range) and the Model has fewer than \<open>2^31\<close> primitives in all, the
  returned vector has one handle per primitive, there is one range per mesh, the range of
  mesh \<open>i\<close> has \<open>count\<close> equal to the number of primitives of the mesh and \<open>begin\<close>
  equal to the number of primitives of the meshes before it, so the ranges lie in the
  vector in mesh order, one after the other, and do not overlap; and primitive \<open>k\<close> of
  mesh \<open>i\<close> was configured, in declaration order, under the handle at \<open>begin + k\<close>.
  The handles stored are the names that \<open>glGenVertexArrays\<close> generated, in the order of
  generation, and so pairwise different.
\<close>

theorem createVertexArrayObjects_ranges:
  assumes run: "createVertexArrayObjects model bo r0 w = Inr (vaos, ranges, w')"
    and small: "prims_before model (length (meshes model)) < 2 ^ 31"
  shows "length vaos = prims_before model (length (meshes model)) \<and>
         length ranges = length (meshes model) \<and>
         (\<forall>i<length (meshes model).
            sint (vr_count (ranges ! i)) = int (length (primitives (meshes model ! i))) \<and>
            sint (vr_begin (ranges ! i)) = int (prims_before model i) \<and>
            prims_before model i + length (primitives (meshes model ! i)) \<le> length vaos \<and>
            (\<forall>j<i. sint (vr_begin (ranges ! j)) + sint (vr_count (ranges ! j))
                     \<le> sint (vr_begin (ranges ! i)))) \<and>
         trace w' = trace w @ map Gl (concat (map (mesh_calls model bo vaos)
                      [0..<length (meshes model)]) @ [BindVertexArray 0]) \<and>
         vaos = map (\<lambda>j. next_vao w + j) [0..<prims_before model (length (meshes model))] \<and>
         distinct vaos"
proof -
  let ?n = "length (meshes model)"
  let ?r0 = "resize ?n \<lparr>vr_begin = 0, vr_count = 0\<rparr> r0"
  from run obtain w1 where
    loop: "for_each [0..<?n] (mesh_pass model bo) ([], ?r0, w) = Inr (vaos, ranges, w1)" and
    w': "w' = emit_gl [BindVertexArray 0] w1"
    by (auto simp: createVertexArrayObjects_def Let_def split: sum.splits)
  from mesh_loop_inv [OF loop] have
    lenv: "length vaos = prims_before model ?n" and
    lenr: "length ranges = ?n" and
    rng: "\<forall>j<?n. ranges ! j = \<lparr>vr_begin = of_nat (prims_before model j),
                           vr_count = of_nat (length (primitives (meshes model ! j)))\<rparr>" and
    tr: "trace w1 = trace w @ map Gl (concat (map (mesh_calls model bo vaos) [0..<?n]))"
    by simp_all
  have per: "sint (vr_count (ranges ! i)) = int (length (primitives (meshes model ! i))) \<and>
            sint (vr_begin (ranges ! i)) = int (prims_before model i) \<and>
            prims_before model i + length (primitives (meshes model ! i)) \<le> length vaos \<and>
            (\<forall>j<i. sint (vr_begin (ranges ! j)) + sint (vr_count (ranges ! j))
                     \<le> sint (vr_begin (ranges ! i)))"
    if i: "i < ?n" for i
  proof -
    have up: "prims_before model (Suc k) \<le> prims_before model ?n" if "k < ?n" for k
      using that by (intro prims_before_mono) simp
    have fit: "prims_before model k + length (primitives (meshes model ! k)) < 2 ^ 31"
      if "k < ?n" for k
      using up [OF that] small that by (simp add: prims_before_Suc)
    have cnt: "sint (vr_count (ranges ! k)) = int (length (primitives (meshes model ! k)))"
      and bgn: "sint (vr_begin (ranges ! k)) = int (prims_before model k)"
      if "k < ?n" for k
      using rng that fit [OF that] by (simp_all add: sint_of_nat_small)
    have sep: "sint (vr_begin (ranges ! j)) + sint (vr_count (ranges ! j))
                 \<le> sint (vr_begin (ranges ! i))" if "j < i" for j
    proof -
      from that i have j: "j < ?n" by simp
      have "prims_before model (Suc j) \<le> prims_before model i"
        using that by (intro prims_before_mono) simp
      then show ?thesis
        using cnt [OF j] bgn [OF j] bgn [OF i] j by (simp add: prims_before_Suc)
    qed
    have "prims_before model i + length (primitives (meshes model ! i)) \<le> length vaos"
      using up [OF i] i by (simp add: lenv prims_before_Suc)
    with cnt [OF i] bgn [OF i] sep show ?thesis by blast
  qed
  have calls: "trace w' = trace w @ map Gl (concat (map (mesh_calls model bo vaos)
                      [0..<?n]) @ [BindVertexArray 0])"
    by (simp add: w' tr)
  from mesh_loop_names [OF loop _ small]
  have names: "vaos = map (\<lambda>j. next_vao w + j) [0..<prims_before model ?n]"
    by simp
  have "distinct (map (\<lambda>j. next_vao w + j) [0..<prims_before model ?n])"
    by (simp add: distinct_map inj_on_def)
  with names have dist: "distinct vaos"
    by simp
  from lenv lenr per calls names dist show ?thesis by blast
qed

theorem createVertexArrayObjects_ranges_witness:
  "createVertexArrayObjects two_mesh_model [7] [] example_world =
     Inr ([1, 2, 3],
          [\<lparr>vr_begin = 0, vr_count = 2\<rparr>, \<lparr>vr_begin = 2, vr_count = 1\<rparr>],
          \<lparr>trace =
             [Gl (GenVertexArrays 2), Gl (BindVertexArray 1),
              Gl (EnableVertexAttribArray 0), Gl (BindBuffer GL_ARRAY_BUFFER 7),
              Gl (VertexAttribPointer 0 3 5126 False 12 12),
              Gl (BindBuffer GL_ELEMENT_ARRAY_BUFFER 7), Gl (BindVertexArray 2),
              Gl (GenVertexArrays 1), Gl (BindVertexArray 3),
              Gl (EnableVertexAttribArray 1), Gl (BindBuffer GL_ARRAY_BUFFER 7),
              Gl (VertexAttribPointer 1 3 5126 False 12 12),
              Gl (BindVertexArray 0)],
           next_buffer = 1, next_vao = 4,
           controller = \<lparr>eye = (0, 0, 0), center = (0, 0, - 1), up = (0, 1, 0)\<rparr>\<rparr>) \<and>
   prims_before two_mesh_model (length (meshes two_mesh_model)) < 2 ^ 31 \<and>
   length [1, 2, 3 :: GLuint] = prims_before two_mesh_model (length (meshes two_mesh_model)) \<and>
   sint (vr_count ([\<lparr>vr_begin = 0, vr_count = 2\<rparr>, \<lparr>vr_begin = 2, vr_count = 1\<rparr>] ! 1)) =
     int (length (primitives (meshes two_mesh_model ! 1))) \<and>
   sint (vr_begin ([\<lparr>vr_begin = 0, vr_count = 2\<rparr>, \<lparr>vr_begin = 2, vr_count = 1\<rparr>] ! 1)) =
     int (prims_before two_mesh_model 1)"
proof -
  let ?V = "[1, 2, 3 :: GLuint]"
  let ?R = "[\<lparr>vr_begin = 0, vr_count = 2\<rparr>, \<lparr>vr_begin = 2, vr_count = 1\<rparr>]"
  let ?W = "\<lparr>trace =
             [Gl (GenVertexArrays 2), Gl (BindVertexArray 1),
              Gl (EnableVertexAttribArray 0), Gl (BindBuffer GL_ARRAY_BUFFER 7),
              Gl (VertexAttribPointer 0 3 5126 False 12 12),
              Gl (BindBuffer GL_ELEMENT_ARRAY_BUFFER 7), Gl (BindVertexArray 2),
              Gl (GenVertexArrays 1), Gl (BindVertexArray 3),
              Gl (EnableVertexAttribArray 1), Gl (BindBuffer GL_ARRAY_BUFFER 7),
              Gl (VertexAttribPointer 1 3 5126 False 12 12),
              Gl (BindVertexArray 0)],
           next_buffer = 1, next_vao = 4,
           controller = \<lparr>eye = (0, 0, 0), center = (0, 0, - 1), up = (0, 1, 0)\<rparr>\<rparr>"
  have run: "createVertexArrayObjects two_mesh_model [7] [] example_world = Inr (?V, ?R, ?W)"
    by code_simp
  have small: "prims_before two_mesh_model (length (meshes two_mesh_model)) < 2 ^ 31"
    by (simp add: prims_before_def two_mesh_model_def)
  have one: "(1::nat) < length (meshes two_mesh_model)"
    by (simp add: two_mesh_model_def)
  from createVertexArrayObjects_ranges [OF run small] one
  have "length ?V = prims_before two_mesh_model (length (meshes two_mesh_model))"
    and "sint (vr_count (?R ! 1)) = int (length (primitives (meshes two_mesh_model ! 1)))"
    and "sint (vr_begin (?R ! 1)) = int (prims_before two_mesh_model 1)"
    by blast+
  with run small show ?thesis by blast
qed

text \<open>
  C2 as stated fails where a count does not fit \<open>GLsizei\<close>: for one mesh of \<open>2^31\<close>
  primitives the function returns, and the recorded \<open>count\<close> is \<open>- 2^31\<close>.
\<close>

theorem createVertexArrayObjects_count_wraps:
  "\<not> isl (createVertexArrayObjects huge_mesh_model [] [] example_world) \<and>
   sint (vr_count (fst (snd (projr (createVertexArrayObjects huge_mesh_model [] [] example_world))) ! 0))
     = - 2147483648 \<and>
   int (length (primitives (meshes huge_mesh_model ! 0))) = 2147483648"
proof -
  let ?m = huge_mesh_model
  have meshes: "meshes ?m = [\<lparr>primitives = replicate 2147483648 bare_primitive\<rparr>]"
    by (simp add: huge_mesh_model_def)
  have len: "length (primitives (meshes ?m ! 0)) = 2147483648"
    by (simp add: meshes)
  have prim: "primitives (meshes ?m ! 0) ! k = bare_primitive" if "k < 2147483648" for k
    using that by (simp add: meshes)
  have inner: "\<exists>w'. for_each [0..<length (primitives (meshes ?m ! 0))]
                  (primitive_pass ?m [] vs 0 off) w = Inr w'" for vs off w
  proof (rule for_each_total)
    fix k s assume "k \<in> set [0..<length (primitives (meshes ?m ! 0))]"
    then have "k < 2147483648" by (simp add: len)
    then show "\<exists>s'. primitive_pass ?m [] vs 0 off k s = Inr s'"
      by (simp add: primitive_pass_def prim configure_bare)
  qed
  have pass: "\<exists>st'. mesh_pass ?m [] 0 st = Inr st'" for st
  proof -
    obtain vs rs w where st: "st = (vs, rs, w)" by (cases st)
    show ?thesis
      unfolding st mesh_pass_def glGenVertexArrays_def Let_def prod.case
      using inner by (metis (no_types, lifting) sum.case(2))
  qed
  have "\<exists>st'. for_each [0..<length (meshes ?m)] (mesh_pass ?m [])
           ([], resize (length (meshes ?m)) \<lparr>vr_begin = 0, vr_count = 0\<rparr> [], example_world) = Inr st'"
  proof (rule for_each_total)
    fix i s assume "i \<in> set [0..<length (meshes ?m)]"
    then have "i = 0" by (simp add: meshes)
    with pass show "\<exists>st'. mesh_pass ?m [] i s = Inr st'" by simp
  qed
  then obtain vaos ranges w1 where
    loop: "for_each [0..<length (meshes ?m)] (mesh_pass ?m [])
           ([], resize (length (meshes ?m)) \<lparr>vr_begin = 0, vr_count = 0\<rparr> [], example_world)
             = Inr (vaos, ranges, w1)"
    by (metis prod_cases3)
  then have run: "createVertexArrayObjects ?m [] [] example_world
                    = Inr (vaos, ranges, emit_gl [BindVertexArray 0] w1)"
    by (simp add: createVertexArrayObjects_def Let_def)
  from mesh_loop_inv [OF loop] have
    "ranges ! 0 = \<lparr>vr_begin = of_nat (prims_before ?m 0),
                    vr_count = of_nat (length (primitives (meshes ?m ! 0)))\<rparr>"
    by (simp add: meshes)
  then have "sint (vr_count (ranges ! 0)) = - 2147483648"
    by (simp add: len)
  then show ?thesis
    by (simp add: run len)
qed

text \<open>
  C4, as the code has it. For an attribute present on the primitive whose references are
  in range, \<open>vao_init\<close> enables the slot it is given, binds the buffer object of the
  buffer view's buffer and passes to the GL: the accessor's type code itself as the
  cardinality (for vec2, vec3 and vec4 the code is the cardinality 2, 3, 4), the
  accessor's component type, normalisation off, the buffer view's stride unchanged, and
  the offset \<open>bufferView.byteOffset + accessor.byteOffset\<close>. The slots are 0 for
  POSITION, 1 for NORMAL and 2 for TEXCOORD_0; after them only the index buffer is bound.
\<close>

theorem vao_init_passes_accessor_fields:
  "(map_of (attributes primitive) str = Some a \<and>
    at_int (accessors model) a = Inr accessor \<and>
    at_int (bufferViews model) (acc_bufferView accessor) = Inr bufferView \<and>
    at_int (buffers model) (bv_buffer bufferView) = Inr buf \<and>
    at_int bufferObjects (bv_buffer bufferView) = Inr handle \<longrightarrow>
      vao_init model primitive bufferObjects str index =
        Inr [EnableVertexAttribArray index,
             BindBuffer GL_ARRAY_BUFFER handle,
             VertexAttribPointer index (acc_type accessor)
               (of_int (acc_componentType accessor)) False
               (ucast (bv_byteStride bufferView))
               (bv_byteOffset bufferView + acc_byteOffset accessor)] \<and>
      (acc_type accessor \<in> {TINYGLTF_TYPE_VEC2, TINYGLTF_TYPE_VEC3, TINYGLTF_TYPE_VEC4} \<longrightarrow>
         acc_type accessor = cardinality_claimed (acc_type accessor)) \<and>
      (bv_byteStride bufferView \<noteq> 0 \<longrightarrow>
         ucast (bv_byteStride bufferView) = stride_claimed accessor bufferView)) \<and>
   (configure_primitive model bufferObjects primitive = Inr cs \<longrightarrow>
      (\<exists>c0 c1 c2 rest.
         vao_init model primitive bufferObjects ''POSITION'' 0 = Inr c0 \<and>
         vao_init model primitive bufferObjects ''NORMAL'' 1 = Inr c1 \<and>
         vao_init model primitive bufferObjects ''TEXCOORD_0'' 2 = Inr c2 \<and>
         cs = c0 @ c1 @ c2 @ rest \<and>
         (\<forall>c \<in> set rest. \<exists>h. c = BindBuffer GL_ELEMENT_ARRAY_BUFFER h)))"
proof (intro conjI impI)
  assume h: "map_of (attributes primitive) str = Some a \<and>
    at_int (accessors model) a = Inr accessor \<and>
    at_int (bufferViews model) (acc_bufferView accessor) = Inr bufferView \<and>
    at_int (buffers model) (bv_buffer bufferView) = Inr buf \<and>
    at_int bufferObjects (bv_buffer bufferView) = Inr handle"
  then show "vao_init model primitive bufferObjects str index =
        Inr [EnableVertexAttribArray index,
             BindBuffer GL_ARRAY_BUFFER handle,
             VertexAttribPointer index (acc_type accessor)
               (of_int (acc_componentType accessor)) False
               (ucast (bv_byteStride bufferView))
               (bv_byteOffset bufferView + acc_byteOffset accessor)]"
    by (simp add: vao_init_def)
next
  assume "acc_type accessor \<in> {TINYGLTF_TYPE_VEC2, TINYGLTF_TYPE_VEC3, TINYGLTF_TYPE_VEC4}"
  then show "acc_type accessor = cardinality_claimed (acc_type accessor)"
    by (auto simp: cardinality_claimed_def TINYGLTF_TYPE_VEC2_def TINYGLTF_TYPE_VEC3_def
        TINYGLTF_TYPE_VEC4_def TINYGLTF_TYPE_SCALAR_def)
next
  assume "bv_byteStride bufferView \<noteq> 0"
  then show "ucast (bv_byteStride bufferView) = stride_claimed accessor bufferView"
    by (simp add: stride_claimed_def)
next
  assume "configure_primitive model bufferObjects primitive = Inr cs"
  then show "\<exists>c0 c1 c2 rest.
         vao_init model primitive bufferObjects ''POSITION'' 0 = Inr c0 \<and>
         vao_init model primitive bufferObjects ''NORMAL'' 1 = Inr c1 \<and>
         vao_init model primitive bufferObjects ''TEXCOORD_0'' 2 = Inr c2 \<and>
         cs = c0 @ c1 @ c2 @ rest \<and>
         (\<forall>c \<in> set rest. \<exists>h. c = BindBuffer GL_ELEMENT_ARRAY_BUFFER h)"
    by (auto simp: configure_primitive_def VERTEX_ATTRIB_POSITION_IDX_def
        VERTEX_ATTRIB_NORMAL_IDX_def VERTEX_ATTRIB_TEXCOORD0_IDX_def
        split: sum.splits if_splits)
qed

theorem vao_init_passes_accessor_fields_witness:
  "map_of (attributes (primitives (meshes two_mesh_model ! 0) ! 0)) ''POSITION'' = Some 0 \<and>
   at_int (accessors two_mesh_model) 0 = Inr (accessors two_mesh_model ! 0) \<and>
   at_int (bufferViews two_mesh_model) (acc_bufferView (accessors two_mesh_model ! 0)) =
     Inr (bufferViews two_mesh_model ! 0) \<and>
   at_int (buffers two_mesh_model) (bv_buffer (bufferViews two_mesh_model ! 0)) =
     Inr (buffers two_mesh_model ! 0) \<and>
   at_int [7] (bv_buffer (bufferViews two_mesh_model ! 0)) = Inr 7 \<and>
   acc_type (accessors two_mesh_model ! 0)
     \<in> {TINYGLTF_TYPE_VEC2, TINYGLTF_TYPE_VEC3, TINYGLTF_TYPE_VEC4} \<and>
   bv_byteStride (bufferViews two_mesh_model ! 0) \<noteq> 0 \<and>
   configure_primitive two_mesh_model [7] (primitives (meshes two_mesh_model ! 0) ! 0) =
     Inr [EnableVertexAttribArray 0, BindBuffer GL_ARRAY_BUFFER 7,
          VertexAttribPointer 0 3 5126 False 12 12,
          BindBuffer GL_ELEMENT_ARRAY_BUFFER 7] \<and>
   vao_init two_mesh_model (primitives (meshes two_mesh_model ! 0) ! 0) [7] ''POSITION'' 0 =
     Inr [EnableVertexAttribArray 0, BindBuffer GL_ARRAY_BUFFER 7,
          VertexAttribPointer 0 3 5126 False 12 12] \<and>
   (\<exists>c0 c1 c2 rest.
      vao_init two_mesh_model (primitives (meshes two_mesh_model ! 0) ! 0) [7] ''POSITION'' 0
        = Inr c0 \<and>
      vao_init two_mesh_model (primitives (meshes two_mesh_model ! 0) ! 0) [7] ''NORMAL'' 1
        = Inr c1 \<and>
      vao_init two_mesh_model (primitives (meshes two_mesh_model ! 0) ! 0) [7] ''TEXCOORD_0'' 2
        = Inr c2 \<and>
      [EnableVertexAttribArray 0, BindBuffer GL_ARRAY_BUFFER 7,
       VertexAttribPointer 0 3 5126 False 12 12,
       BindBuffer GL_ELEMENT_ARRAY_BUFFER 7] = c0 @ c1 @ c2 @ rest \<and>
      (\<forall>c \<in> set rest. \<exists>h. c = BindBuffer GL_ELEMENT_ARRAY_BUFFER h))"
proof -
  let ?P = "primitives (meshes two_mesh_model ! 0) ! 0"
  let ?A = "accessors two_mesh_model ! 0"
  let ?BV = "bufferViews two_mesh_model ! 0"
  let ?cs = "[EnableVertexAttribArray 0, BindBuffer GL_ARRAY_BUFFER 7,
          VertexAttribPointer 0 3 5126 False 12 12,
          BindBuffer GL_ELEMENT_ARRAY_BUFFER 7]"
  have h1: "map_of (attributes ?P) ''POSITION'' = Some 0 \<and>
   at_int (accessors two_mesh_model) 0 = Inr ?A \<and>
   at_int (bufferViews two_mesh_model) (acc_bufferView ?A) = Inr ?BV \<and>
   at_int (buffers two_mesh_model) (bv_buffer ?BV) = Inr (buffers two_mesh_model ! 0) \<and>
   at_int [7] (bv_buffer ?BV) = Inr 7"
    by (simp add: two_mesh_model_def at_int_def)
  have h2: "acc_type ?A \<in> {TINYGLTF_TYPE_VEC2, TINYGLTF_TYPE_VEC3, TINYGLTF_TYPE_VEC4}"
    by (simp add: two_mesh_model_def TINYGLTF_TYPE_VEC3_def)
  have h3: "bv_byteStride ?BV \<noteq> 0"
    by (simp add: two_mesh_model_def)
  have h4: "configure_primitive two_mesh_model [7] ?P = Inr ?cs"
    by code_simp
  have fields: "acc_type ?A = 3" "(of_int (acc_componentType ?A) :: 32 word) = 5126"
    "(ucast (bv_byteStride ?BV) :: 32 word) = 12"
    "bv_byteOffset ?BV + acc_byteOffset ?A = 12"
    by (simp_all add: two_mesh_model_def)
  note t = vao_init_passes_accessor_fields [of ?P "''POSITION''" 0 two_mesh_model ?A ?BV
      "buffers two_mesh_model ! 0" "[7]" 7 0 ?cs]
  from t h1 have c1: "vao_init two_mesh_model ?P [7] ''POSITION'' 0 =
     Inr [EnableVertexAttribArray 0, BindBuffer GL_ARRAY_BUFFER 7,
          VertexAttribPointer 0 3 5126 False 12 12]"
    by (simp only: fields) blast
  from t h4 have c2: "\<exists>c0 c1 c2 rest.
      vao_init two_mesh_model ?P [7] ''POSITION'' 0 = Inr c0 \<and>
      vao_init two_mesh_model ?P [7] ''NORMAL'' 1 = Inr c1 \<and>
      vao_init two_mesh_model ?P [7] ''TEXCOORD_0'' 2 = Inr c2 \<and>
      ?cs = c0 @ c1 @ c2 @ rest \<and>
      (\<forall>c \<in> set rest. \<exists>h. c = BindBuffer GL_ELEMENT_ARRAY_BUFFER h)"
    by blast
  from h1 h2 h3 h4 c1 c2 show ?thesis by blast
qed

text \<open>
  C4 as stated fails for a scalar accessor, whose type code 65 is passed where the claim
  has the cardinality 1, and for a stride of 0, which is passed as 0 where the claim has
  the size of one element (12 bytes for a vec3 of floats).
\<close>

theorem vao_init_scalar_and_zero_stride:
  "vao_init scalar_model scalar_primitive [7] ''POSITION'' 0 =
     Inr [EnableVertexAttribArray 0, BindBuffer GL_ARRAY_BUFFER 7,
          VertexAttribPointer 0 65 5126 False 4 0] \<and>
   attrib_pointer_claimed 0 (accessors scalar_model ! 0) (bufferViews scalar_model ! 0) =
     VertexAttribPointer 0 1 5126 False 4 0 \<and>
   vao_init scalar_model scalar_primitive [7] ''NORMAL'' 1 =
     Inr [EnableVertexAttribArray 1, BindBuffer GL_ARRAY_BUFFER 7,
          VertexAttribPointer 1 3 5126 False 0 0] \<and>
   attrib_pointer_claimed 1 (accessors scalar_model ! 1) (bufferViews scalar_model ! 1) =
     VertexAttribPointer 1 3 5126 False 12 0"
  by (simp add: vao_init_def scalar_model_def scalar_primitive_def at_int_def
      attrib_pointer_claimed_def cardinality_claimed_def stride_claimed_def component_size_def
      TINYGLTF_TYPE_VEC2_def TINYGLTF_TYPE_VEC3_def TINYGLTF_TYPE_VEC4_def
      TINYGLTF_TYPE_SCALAR_def)

text \<open>
  C7. Without a default scene (a negative index) the draw routine sets the viewport and
  clears, and calls the node function on nothing, so it makes no draw call; with the
  default scene it calls the node function on the roots of that scene, in their order,
  each with the identity matrix as the parent transform.
\<close>

theorem drawScene_starts_at_roots:
  "(defaultScene model < 0 \<longrightarrow>
      drawScene_with draw_node app model camera =
        Inr [Viewport 0 0 (m_nWindowWidth app) (m_nWindowHeight app), Clear_COLOR_DEPTH] \<and>
      drawScene app model camera =
        Inr [Viewport 0 0 (m_nWindowWidth app) (m_nWindowHeight app), Clear_COLOR_DEPTH]) \<and>
   (0 \<le> defaultScene model \<and> at_int (scenes model) (defaultScene model) = Inr scene \<longrightarrow>
      drawScene_with draw_node app model camera =
        Inr ([Viewport 0 0 (m_nWindowWidth app) (m_nWindowHeight app), Clear_COLOR_DEPTH] @
             concat (map (\<lambda>root. draw_node root (mat4_diag 1)) (nodes scene)))) \<and>
   drawScene app model camera = drawScene_with drawNode app model camera"
proof -
  have "map (\<lambda>i. draw_node (nodes scene ! i) (mat4_diag 1)) [0..<length (nodes scene)] =
        map (\<lambda>root. draw_node root (mat4_diag 1)) (nodes scene)"
    by (rule nth_equalityI) simp_all
  then show ?thesis
    unfolding drawScene_def drawScene_with_def Let_def by simp
qed

theorem drawScene_starts_at_roots_witness:
  "defaultScene two_mesh_model < 0 \<and>
   drawScene example_app two_mesh_model default_camera =
     Inr [Viewport 0 0 (m_nWindowWidth example_app) (m_nWindowHeight example_app),
          Clear_COLOR_DEPTH] \<and>
   0 \<le> defaultScene parent_child_model \<and>
   at_int (scenes parent_child_model) (defaultScene parent_child_model) = Inr \<lparr>nodes = [0]\<rparr> \<and>
   drawScene_with (\<lambda>root parent. [UniformMatrix4fv root parent]) example_app
       parent_child_model default_camera =
     Inr ([Viewport 0 0 (m_nWindowWidth example_app) (m_nWindowHeight example_app),
           Clear_COLOR_DEPTH] @
          concat (map (\<lambda>root. [UniformMatrix4fv root (mat4_diag 1)]) (nodes \<lparr>nodes = [0]\<rparr>)))"
proof -
  have h1: "defaultScene two_mesh_model < 0"
    by (simp add: two_mesh_model_def)
  have h2: "0 \<le> defaultScene parent_child_model \<and>
      at_int (scenes parent_child_model) (defaultScene parent_child_model) = Inr \<lparr>nodes = [0]\<rparr>"
    by (simp add: parent_child_model_def at_int_def)
  from drawScene_starts_at_roots [of two_mesh_model drawNode example_app default_camera
      "\<lparr>nodes = [0]\<rparr>"] h1
  have c1: "drawScene example_app two_mesh_model default_camera =
     Inr [Viewport 0 0 (m_nWindowWidth example_app) (m_nWindowHeight example_app),
          Clear_COLOR_DEPTH]"
    by blast
  from drawScene_starts_at_roots [of parent_child_model
      "\<lambda>root parent. [UniformMatrix4fv root parent]" example_app default_camera
      "\<lparr>nodes = [0]\<rparr>"] h2
  have c2: "drawScene_with (\<lambda>root parent. [UniformMatrix4fv root parent]) example_app
       parent_child_model default_camera =
     Inr ([Viewport 0 0 (m_nWindowWidth example_app) (m_nWindowHeight example_app),
           Clear_COLOR_DEPTH] @
          concat (map (\<lambda>root. [UniformMatrix4fv root (mat4_diag 1)]) (nodes \<lparr>nodes = [0]\<rparr>)))"
    by blast
  from h1 h2 c1 c2 show ?thesis by blast
qed

text \<open>
  C1, on the scene of the claim (node A without mesh, child B translated by (1,0,0) with
  a mesh of one primitive): the draw routine sets the viewport and clears, and nothing
  else; no draw call is made, because the body of \<open>drawNode\<close> is empty.
\<close>

theorem drawScene_parent_child_makes_no_draw_call:
  "children (model_nodes parent_child_model ! 0) = [1] \<and>
   mesh (model_nodes parent_child_model ! 1) = 0 \<and>
   length (primitives (meshes parent_child_model ! 0)) = 1 \<and>
   drawScene example_app parent_child_model (controller example_world) =
     Inr [Viewport 0 0 1280 720, Clear_COLOR_DEPTH] \<and>
   filter is_draw_call [Viewport 0 0 1280 720, Clear_COLOR_DEPTH] = []"
  by (simp add: drawScene_def drawScene_with_def drawNode_def parent_child_model_def
      example_app_def at_int_def)

text \<open>
  C6, on a primitive without NORMAL: the vertex array is built without a fault and slot 1
  is not touched, but no draw call is made for the primitive, because the body of
  \<open>drawNode\<close> is empty.
\<close>

theorem no_normal_primitive_is_configured_but_not_drawn:
  "createVertexArrayObjects no_normal_model [1] [] example_world =
     Inr ([1], [\<lparr>vr_begin = 0, vr_count = 1\<rparr>],
          example_world\<lparr>trace :=
            [Gl (GenVertexArrays 1), Gl (BindVertexArray 1),
             Gl (EnableVertexAttribArray 0), Gl (BindBuffer GL_ARRAY_BUFFER 1),
             Gl (VertexAttribPointer 0 3 5126 False 20 0),
             Gl (EnableVertexAttribArray 2), Gl (BindBuffer GL_ARRAY_BUFFER 1),
             Gl (VertexAttribPointer 2 2 5126 False 20 12),
             Gl (BindVertexArray 0)], next_vao := 2\<rparr>) \<and>
   drawScene example_app no_normal_model (controller example_world) =
     Inr [Viewport 0 0 1280 720, Clear_COLOR_DEPTH] \<and>
   filter is_draw_call [Viewport 0 0 1280 720, Clear_COLOR_DEPTH] = []"
proof -
  have "createVertexArrayObjects no_normal_model [1] [] example_world =
     Inr ([1], [\<lparr>vr_begin = 0, vr_count = 1\<rparr>],
          example_world\<lparr>trace :=
            [Gl (GenVertexArrays 1), Gl (BindVertexArray 1),
             Gl (EnableVertexAttribArray 0), Gl (BindBuffer GL_ARRAY_BUFFER 1),
             Gl (VertexAttribPointer 0 3 5126 False 20 0),
             Gl (EnableVertexAttribArray 2), Gl (BindBuffer GL_ARRAY_BUFFER 1),
             Gl (VertexAttribPointer 2 2 5126 False 20 12),
             Gl (BindVertexArray 0)], next_vao := 2\<rparr>)"
    by code_simp
  moreover have "drawScene example_app no_normal_model (controller example_world) =
     Inr [Viewport 0 0 1280 720, Clear_COLOR_DEPTH]"
    by (simp add: drawScene_def drawScene_with_def drawNode_def no_normal_model_def
      example_app_def at_int_def)
  ultimately show ?thesis by simp
qed

text \<open>
  C5. One pass of the frame loop reads the controller's camera first, draws the scene
  with that snapshot, runs the overlay and polls the events, and only then, and only if
  the overlay wants neither the pointer nor the keyboard, calls \<open>update\<close> with the
  elapsed time, and last swaps the buffers. The camera that \<open>update\<close> leaves in the
  controller is the one the next pass reads: the loop goes on from the world this pass
  ends in.
\<close>

theorem frame_draws_snapshot_then_updates:
  "frame en app model k w = Inr w' \<longrightarrow>
     (\<exists>cs. drawScene app model (controller w) = Inr cs \<and>
        trace w' = trace w @ [GetCamera (controller w)] @ map Gl cs @
          [ImguiNewFrame, GuiWindow (controller w)] @
          (if header_open en k \<and> button_clicked en k then [SetClipboard (controller w)] else []) @
          [ImguiRenderFrame, PollEvents] @
          (if wantCaptureMouse en k \<or> wantCaptureKeyboard en k then []
           else [Update (elapsed en k)]) @
          [SwapBuffers]) \<and>
     controller w' =
       (if wantCaptureMouse en k \<or> wantCaptureKeyboard en k then controller w
        else update en k (elapsed en k) (controller w)) \<and>
     (\<not> shouldClose en k \<longrightarrow>
        frame_loop en app model k w = frame_loop en app model (Suc k) w')"
proof (intro impI conjI)
  assume f: "frame en app model k w = Inr w'"
  then obtain cs where cs: "drawScene app model (controller w) = Inr cs"
    by (auto simp: frame_def Let_def split: sum.splits)
  with f have w': "w' = emit SwapBuffers
      (if \<not> (wantCaptureMouse en k \<or> wantCaptureKeyboard en k)
       then cameraController_update en k (elapsed en k)
         (emit PollEvents (emit ImguiRenderFrame (gui en k (controller w)
           (emit ImguiNewFrame (emit_gl cs (emit (GetCamera (controller w)) w))))))
       else emit PollEvents (emit ImguiRenderFrame (gui en k (controller w)
           (emit ImguiNewFrame (emit_gl cs (emit (GetCamera (controller w)) w))))))"
    by (simp add: frame_def Let_def)
  have "trace w' = trace w @ [GetCamera (controller w)] @ map Gl cs @
          [ImguiNewFrame, GuiWindow (controller w)] @
          (if header_open en k \<and> button_clicked en k then [SetClipboard (controller w)] else []) @
          [ImguiRenderFrame, PollEvents] @
          (if wantCaptureMouse en k \<or> wantCaptureKeyboard en k then []
           else [Update (elapsed en k)]) @
          [SwapBuffers]"
    by (simp add: w' gui_def cameraController_update_def Let_def)
  with cs show "\<exists>cs. drawScene app model (controller w) = Inr cs \<and>
        trace w' = trace w @ [GetCamera (controller w)] @ map Gl cs @
          [ImguiNewFrame, GuiWindow (controller w)] @
          (if header_open en k \<and> button_clicked en k then [SetClipboard (controller w)] else []) @
          [ImguiRenderFrame, PollEvents] @
          (if wantCaptureMouse en k \<or> wantCaptureKeyboard en k then []
           else [Update (elapsed en k)]) @
          [SwapBuffers]"
    by blast
  show "controller w' =
       (if wantCaptureMouse en k \<or> wantCaptureKeyboard en k then controller w
        else update en k (elapsed en k) (controller w))"
    by (simp add: w' gui_def cameraController_update_def Let_def)
  assume "\<not> shouldClose en k"
  with f show "frame_loop en app model k w = frame_loop en app model (Suc k) w'"
    by (subst frame_loop.simps) simp
qed

theorem frame_draws_snapshot_then_updates_witness:
  "frame example_env example_app parent_child_model 1 example_world =
     Inr example_world_after_frame \<and>
   \<not> shouldClose example_env 1 \<and>
   trace example_world_after_frame =
     [GetCamera default_camera, Gl (Viewport 0 0 1280 720), Gl Clear_COLOR_DEPTH,
      ImguiNewFrame, GuiWindow default_camera, ImguiRenderFrame, PollEvents, Update 1,
      SwapBuffers] \<and>
   controller example_world_after_frame =
     (if wantCaptureMouse example_env 1 \<or> wantCaptureKeyboard example_env 1
      then controller example_world
      else update example_env 1 (elapsed example_env 1)
             (controller example_world)) \<and>
   frame_loop example_env example_app parent_child_model 1 example_world =
     frame_loop example_env example_app parent_child_model (Suc 1) example_world_after_frame"
proof -
  have h1: "frame example_env example_app parent_child_model 1 example_world =
     Inr example_world_after_frame"
    by (rule frame_example)
  have h2: "\<not> shouldClose example_env 1"
    by (simp add: example_env_def)
  have tr: "trace example_world_after_frame =
     [GetCamera default_camera, Gl (Viewport 0 0 1280 720), Gl Clear_COLOR_DEPTH,
      ImguiNewFrame, GuiWindow default_camera, ImguiRenderFrame, PollEvents, Update 1,
      SwapBuffers]"
    by (simp add: example_world_after_frame_def frame_events_def)
  from frame_draws_snapshot_then_updates [of example_env example_app parent_child_model 1
      example_world example_world_after_frame] h1 h2
  have "controller example_world_after_frame =
     (if wantCaptureMouse example_env 1 \<or> wantCaptureKeyboard example_env 1
      then controller example_world
      else update example_env 1 (elapsed example_env 1)
             (controller example_world))"
    and "frame_loop example_env example_app parent_child_model 1 example_world =
     frame_loop example_env example_app parent_child_model (Suc 1) example_world_after_frame"
    by blast+
  with h1 h2 tr show ?thesis by blast
qed

text \<open>
  C9. When the loader reports failure, \<open>run\<close> returns \<open>- 1\<close> and the last thing it
  wrote is the line "Failed to load glTF model" on the error stream; whenever \<open>run\<close>
  returns, the code is \<open>- 1\<close> exactly if the loader failed and \<open>0\<close> exactly if it did
  not; when the loader succeeds on a validated Model and the window is closed at some
  point, \<open>run\<close> does return, with 0. What the loader reports as its result is returned
  whatever the warning text; a warning and an error text are written to the error stream,
  and are among what \<open>run\<close> has written when it returns.
\<close>

theorem run_exit_code:
  "(\<not> load_ret en \<longrightarrow>
      (\<exists>w'. run en app w = Some (Inr (- 1, w')) \<and>
            last (trace w') = Cerr ''Failed to load glTF model'')) \<and>
   (run en app w = Some (Inr (code, w')) \<longrightarrow>
      (code = - 1 \<longleftrightarrow> \<not> load_ret en) \<and> (code = 0 \<longleftrightarrow> load_ret en)) \<and>
   (load_ret en \<and> model_ok (load_model en) \<and> shouldClose en n \<longrightarrow>
      (\<exists>w'. run en app w = Some (Inr (0, w')))) \<and>
   fst (loadGltfFile en w0) = load_ret en \<and>
   (load_warn en \<noteq> [] \<longrightarrow>
      Cerr (''Warning: '' @ load_warn en) \<in> set (trace (snd (loadGltfFile en w0)))) \<and>
   (load_err en \<noteq> [] \<longrightarrow>
      Cerr (''Error: '' @ load_err en) \<in> set (trace (snd (loadGltfFile en w0)))) \<and>
   (run en app w = Some (Inr (code, w')) \<and> load_warn en \<noteq> [] \<longrightarrow>
      Cerr (''Warning: '' @ load_warn en) \<in> set (trace w')) \<and>
   (run en app w = Some (Inr (code, w')) \<and> load_err en \<noteq> [] \<longrightarrow>
      Cerr (''Error: '' @ load_err en) \<in> set (trace w'))"
proof (intro conjI impI)
  assume "\<not> load_ret en"
  then show "\<exists>w'. run en app w = Some (Inr (- 1, w')) \<and>
            last (trace w') = Cerr ''Failed to load glTF model''"
    by (simp add: run_def run_prologue_def loadGltfFile_def Let_def)
next
  assume r: "run en app w = Some (Inr (code, w'))"
  show "(code = - 1) = (\<not> load_ret en)"
    using r by (auto simp: run_def run_prologue_def loadGltfFile_def Let_def case_prod_beta
        split: option.splits sum.splits prologue_result.splits if_splits)
  show "(code = 0) = load_ret en"
    using r by (auto simp: run_def run_prologue_def loadGltfFile_def Let_def case_prod_beta
        split: option.splits sum.splits prologue_result.splits if_splits)
next
  assume h: "load_ret en \<and> model_ok (load_model en) \<and> shouldClose en n"
  let ?m = "load_model en"
  from h have meshes_ok: "list_all (\<lambda>m. list_all (primitive_ok ?m) (primitives m)) (meshes ?m)"
    and scene_ok: "defaultScene ?m < int (length (scenes ?m))"
    by (simp_all add: model_ok_def)
  obtain w1 where p: "run_prologue en app w = Ready ?m w1"
  proof -
    let ?w4 = "snd (loadGltfFile en
       (if m_hasUserCamera app
        then setCamera (m_userCamera app)
          (emit_gl [GetUniformLocation ''uModelViewProjMatrix'',
                    GetUniformLocation ''uModelViewMatrix'',
                    GetUniformLocation ''uNormalMatrix''] (emit CompileProgram w))
        else setCamera \<lparr>eye = (0, 0, 0), center = (0, 0, - 1), up = (0, 1, 0)\<rparr>
          (emit_gl [GetUniformLocation ''uModelViewProjMatrix'',
                    GetUniformLocation ''uModelViewMatrix'',
                    GetUniformLocation ''uNormalMatrix''] (emit CompileProgram w))))"
    from createVertexArrayObjects_ok [OF meshes_ok length_createBufferObjects]
    obtain vaos ranges w6 where
      "createVertexArrayObjects ?m (fst (createBufferObjects ?m ?w4)) []
         (snd (createBufferObjects ?m ?w4)) = Inr (vaos, ranges, w6)"
      by blast
    with h have "run_prologue en app w = Ready ?m (emit_gl [Enable_DEPTH_TEST, UseProgram] w6)"
      by (simp add: run_prologue_def Let_def case_prod_beta loadGltfFile_def)
    then show ?thesis by (rule that)
  qed
  from h have "shouldClose en n" by simp
  from frame_loop_returns [OF this frame_ok [OF scene_ok], of 0 _ w1]
  obtain w2 where "frame_loop en app ?m 0 w1 = Some (Inr w2)" by auto
  with p show "\<exists>w'. run en app w = Some (Inr (0, w'))"
    by (simp add: run_def)
next
  show "fst (loadGltfFile en w0) = load_ret en"
    by (simp add: loadGltfFile_def Let_def)
next
  assume "load_warn en \<noteq> []"
  then show "Cerr (''Warning: '' @ load_warn en) \<in> set (trace (snd (loadGltfFile en w0)))"
    by (simp add: loadGltfFile_def Let_def)
next
  assume "load_err en \<noteq> []"
  then show "Cerr (''Error: '' @ load_err en) \<in> set (trace (snd (loadGltfFile en w0)))"
    by (simp add: loadGltfFile_def Let_def)
next
  assume h: "run en app w = Some (Inr (code, w')) \<and> load_warn en \<noteq> []"
  then obtain w3 es where "trace w' = trace (snd (loadGltfFile en w3)) @ es"
    using run_keeps_loader_output by blast
  moreover from h have "Cerr (''Warning: '' @ load_warn en)
      \<in> set (trace (snd (loadGltfFile en w3)))"
    by (simp add: loadGltfFile_def Let_def)
  ultimately show "Cerr (''Warning: '' @ load_warn en) \<in> set (trace w')"
    by simp
next
  assume h: "run en app w = Some (Inr (code, w')) \<and> load_err en \<noteq> []"
  then obtain w3 es where "trace w' = trace (snd (loadGltfFile en w3)) @ es"
    using run_keeps_loader_output by blast
  moreover from h have "Cerr (''Error: '' @ load_err en)
      \<in> set (trace (snd (loadGltfFile en w3)))"
    by (simp add: loadGltfFile_def Let_def)
  ultimately show "Cerr (''Error: '' @ load_err en) \<in> set (trace w')"
    by simp
qed

theorem run_exit_code_witness:
  "\<not> load_ret failing_env \<and>
   (\<exists>w'. run failing_env example_app example_world = Some (Inr (- 1, w')) \<and>
         last (trace w') = Cerr ''Failed to load glTF model'') \<and>
   run example_env example_app example_world = Some (Inr (0, example_world_done)) \<and>
   load_ret example_env \<and> model_ok (load_model example_env) \<and> shouldClose example_env 2 \<and>
   (\<exists>w'. run example_env example_app example_world = Some (Inr (0, w'))) \<and>
   load_warn example_env \<noteq> [] \<and>
   Cerr (''Warning: '' @ load_warn example_env)
     \<in> set (trace (snd (loadGltfFile example_env example_world))) \<and>
   load_err failing_env \<noteq> [] \<and>
   Cerr (''Error: '' @ load_err failing_env)
     \<in> set (trace (snd (loadGltfFile failing_env example_world))) \<and>
   Cerr (''Warning: '' @ load_warn example_env) \<in> set (trace example_world_done) \<and>
   run failing_env example_app example_world = Some (Inr (- 1, failing_world_done)) \<and>
   Cerr (''Error: '' @ load_err failing_env) \<in> set (trace failing_world_done)"
proof -
  have f1: "\<not> load_ret failing_env" and f2: "load_err failing_env \<noteq> []"
    by (simp_all add: failing_env_def example_env_def)
  have e1: "load_ret example_env" and e2: "shouldClose example_env 2"
    and e3: "load_warn example_env \<noteq> []"
    by (simp_all add: example_env_def)
  have e4: "model_ok (load_model example_env)"
    by (rule model_ok_example)
  have e5: "run example_env example_app example_world = Some (Inr (0, example_world_done))"
    by (rule run_example)
  have f3: "run failing_env example_app example_world = Some (Inr (- 1, failing_world_done))"
    by (rule run_failing)
  note tf = run_exit_code [of failing_env example_app example_world "- 1" failing_world_done 2
      example_world]
  note te = run_exit_code [of example_env example_app example_world 0 example_world_done 2
      example_world]
  from tf f1 have c1: "\<exists>w'. run failing_env example_app example_world = Some (Inr (- 1, w')) \<and>
         last (trace w') = Cerr ''Failed to load glTF model''"
    by blast
  from tf f2 have c2: "Cerr (''Error: '' @ load_err failing_env)
     \<in> set (trace (snd (loadGltfFile failing_env example_world)))"
    by blast
  from te e1 e2 e4 have c3: "\<exists>w'. run example_env example_app example_world = Some (Inr (0, w'))"
    by blast
  from te e3 have c4: "Cerr (''Warning: '' @ load_warn example_env)
     \<in> set (trace (snd (loadGltfFile example_env example_world)))"
    by blast
  from te e5 e3 have c5: "Cerr (''Warning: '' @ load_warn example_env)
     \<in> set (trace example_world_done)"
    by blast
  from tf f3 f2 have c6: "Cerr (''Error: '' @ load_err failing_env)
     \<in> set (trace failing_world_done)"
    by blast
  from f1 f2 f3 e1 e2 e3 e4 e5 c1 c2 c3 c4 c5 c6 show ?thesis by blast
qed





end
